theory Spec2Isabelle
  imports Main "HOL-Library.Sublist"
begin

section \<open>The notebook \<open>0401 - The matplotlib Architecture\<close>\<close>

text \<open>
  The repository's only executable code is the six code cells of one Jupyter notebook.
  Every statement of those cells is an import, a line magic, or a call into an external
  library (IPython, NumPy, matplotlib); the libraries are not part of the repository.
  The cells are embedded as state-passing computations over an explicit kernel state, and
  the libraries enter as a parameter: a function that takes a request of the program and
  the current state of the outside world, and gives back either an exception or a value,
  together with the new world.
\<close>

subsection \<open>Requests of the program to the runtime and the libraries\<close>

text \<open>
  An argument of a call is either a value obtained from the library earlier (the Python
  variables \<open>fig\<close>, \<open>x\<close>, \<open>ax\<close>) or a literal written in the source.
\<close>

datatype 'v arg = Ref 'v | IntLit int | StrLit string

datatype 'v event =
    LineMagic string string             \<comment> \<open>\<open>%name argument\<close>\<close>
  | ImportAs string string              \<comment> \<open>\<open>import module as alias\<close>\<close>
  | FromImport string string            \<comment> \<open>\<open>from module import name\<close>\<close>
  | CallFn string "'v arg list"         \<comment> \<open>\<open>f(args)\<close>, \<open>f\<close> the dotted name as written\<close>
  | CallMethod 'v string "'v arg list"  \<comment> \<open>\<open>receiver.method(args)\<close>\<close>

text \<open>
  The external libraries and the Python runtime: exceptions \<open>'e\<close>, values \<open>'v\<close> and
  worlds \<open>'w\<close> are theirs, and the program is written for all of them.
\<close>

type_synonym ('e, 'v, 'w) library = "'v event \<Rightarrow> 'w \<Rightarrow> ('e + 'v) \<times> 'w"

subsection \<open>The kernel\<close>

text \<open>
  The kernel holds the world, the execution counter (the \<open>execution_count\<close> field of a
  code cell in the notebook file) and a record of every request made so far: the counter of
  the cell that made it, the request, and what the library answered.
\<close>

record ('e, 'v, 'w) kernel =
  world :: 'w
  execution_count :: nat
  trace :: "(nat \<times> 'v event \<times> ('e + 'v)) list"

type_synonym ('e, 'v, 'w, 'a) py =
  "('e, 'v, 'w) library \<Rightarrow> ('e, 'v, 'w) kernel \<Rightarrow> ('e + 'a) \<times> ('e, 'v, 'w) kernel"

definition invoke :: "'v event \<Rightarrow> ('e, 'v, 'w, 'v) py" where
  "invoke ev lib k =
     (case lib ev (world k) of
        (r, w') \<Rightarrow> (r, k\<lparr>world := w', trace := trace k @ [(execution_count k, ev, r)]\<rparr>))"

text \<open>
  Sequencing of statements. Python has no handler around any statement of the notebook, so
  an exception ends the computation with that exception.
\<close>

definition py_bind :: "('e, 'v, 'w, 'a) py \<Rightarrow> ('a \<Rightarrow> ('e, 'v, 'w, 'b) py) \<Rightarrow> ('e, 'v, 'w, 'b) py" where
  "py_bind m f lib k =
     (case m lib k of
        (Inl e, k') \<Rightarrow> (Inl e, k')
      | (Inr a, k') \<Rightarrow> f a lib k')"

definition py_return :: "'a \<Rightarrow> ('e, 'v, 'w, 'a) py" where
  "py_return a lib k = (Inr a, k)"

text \<open>Running a cell gives it the next execution count.\<close>

definition run_cell :: "('e, 'v, 'w, 'a) py \<Rightarrow> ('e, 'v, 'w, 'a) py" where
  "run_cell body lib k = body lib (k\<lparr>execution_count := Suc (execution_count k)\<rparr>)"

subsection \<open>The code cells\<close>

text \<open>
  \<^verbatim>\<open>
  In [1]: %matplotlib inline
          import numpy as np
          from IPython.display import set_matplotlib_formats
          set_matplotlib_formats('retina')
  \<close>
\<close>

definition cell_1 :: "('e, 'v, 'w, unit) py" where
  "cell_1 =
     py_bind (invoke (LineMagic ''matplotlib'' ''inline'')) (\<lambda>_.
     py_bind (invoke (ImportAs ''numpy'' ''np'')) (\<lambda>_.
     py_bind (invoke (FromImport ''IPython.display'' ''set_matplotlib_formats'')) (\<lambda>_.
     py_bind (invoke (CallFn ''set_matplotlib_formats'' [StrLit ''retina''])) (\<lambda>_.
     py_return ()))))"

text \<open>
  \<^verbatim>\<open>
  In [2]: from matplotlib.backends.backend_agg import FigureCanvasAgg
          from matplotlib.figure import Figure
  \<close>
\<close>

definition cell_2 :: "('e, 'v, 'w, unit) py" where
  "cell_2 =
     py_bind (invoke (FromImport ''matplotlib.backends.backend_agg'' ''FigureCanvasAgg'')) (\<lambda>_.
     py_bind (invoke (FromImport ''matplotlib.figure'' ''Figure'')) (\<lambda>_.
     py_return ()))"

text \<open>
  \<^verbatim>\<open>
  In [3]: fig = Figure()
          canvas = FigureCanvasAgg(fig)
  \<close>
  The cell leaves the variables \<open>fig\<close> and \<open>canvas\<close> in the kernel's namespace; the
  embedding returns them.
\<close>

definition cell_3 :: "('e, 'v, 'w, 'v \<times> 'v) py" where
  "cell_3 =
     py_bind (invoke (CallFn ''Figure'' [])) (\<lambda>fig.
     py_bind (invoke (CallFn ''FigureCanvasAgg'' [Ref fig])) (\<lambda>canvas.
     py_return (fig, canvas)))"

text \<open>
  \<^verbatim>\<open>
  In [4]: x = np.random.randn(10000)
  \<close>
\<close>

definition cell_4 :: "('e, 'v, 'w, 'v) py" where
  "cell_4 =
     py_bind (invoke (CallFn ''np.random.randn'' [IntLit 10000])) (\<lambda>x.
     py_return x)"

text \<open>
  \<^verbatim>\<open>
  In [5]: ax = fig.add_subplot(111)
          ax.hist(x, 100)
          ax.set_title('Normal distribution with $\mu=0, \sigma=1$');
  \<close>
  Neither \<open>\m\<close> nor \<open>\s\<close> is an escape sequence of Python, so the title holds the two
  backslashes.
\<close>

definition title :: string where
  "title = ''Normal distribution with $'' @ [CHR 0x5C] @ ''mu=0, '' @ [CHR 0x5C] @ ''sigma=1$''"

definition cell_5 :: "'v \<Rightarrow> 'v \<Rightarrow> ('e, 'v, 'w, 'v) py" where
  "cell_5 fig x =
     py_bind (invoke (CallMethod fig ''add_subplot'' [IntLit 111])) (\<lambda>ax.
     py_bind (invoke (CallMethod ax ''hist'' [Ref x, IntLit 100])) (\<lambda>_.
     py_bind (invoke (CallMethod ax ''set_title'' [StrLit title])) (\<lambda>_.
     py_return ax)))"

text \<open>
  \<^verbatim>\<open>
  In [6]: from IPython.display import display_png
          display_png(fig)
  \<close>
\<close>

definition cell_6 :: "'v \<Rightarrow> ('e, 'v, 'w, unit) py" where
  "cell_6 fig =
     py_bind (invoke (FromImport ''IPython.display'' ''display_png'')) (\<lambda>_.
     py_bind (invoke (CallFn ''display_png'' [Ref fig])) (\<lambda>_.
     py_return ()))"

text \<open>
  The notebook, its code cells executed top to bottom in one kernel. The cells share the
  kernel's namespace: cell 5 reads \<open>fig\<close> and \<open>x\<close>, cell 6 reads \<open>fig\<close>. An
  exception in a cell ends the run, as it does under \<open>Run All\<close>. What the kernel itself
  does around a cell (it echoes the value of the last expression of a cell, unless the
  cell ends in a semicolon, as cell 5 does) is the runtime's and not a request of the
  program.
\<close>

definition notebook :: "('e, 'v, 'w, unit) py" where
  "notebook =
     py_bind (run_cell cell_1) (\<lambda>_.
     py_bind (run_cell cell_2) (\<lambda>_.
     py_bind (run_cell cell_3) (\<lambda>(fig, canvas).
     py_bind (run_cell cell_4) (\<lambda>x.
     py_bind (run_cell (cell_5 fig x)) (\<lambda>ax.
     run_cell (cell_6 fig))))))"

definition fresh_kernel :: "'w \<Rightarrow> ('e, 'v, 'w) kernel" where
  "fresh_kernel w = \<lparr>world = w, execution_count = 0, trace = []\<rparr>"

definition run_all :: "('e, 'v, 'w) library \<Rightarrow> 'w \<Rightarrow> ('e + unit) \<times> ('e, 'v, 'w) kernel" where
  "run_all lib w = notebook lib (fresh_kernel w)"

definition outcome :: "('e, 'v, 'w) library \<Rightarrow> 'w \<Rightarrow> 'e + unit" where
  "outcome lib w = fst (run_all lib w)"

definition requests :: "('e, 'v, 'w) library \<Rightarrow> 'w \<Rightarrow> (nat \<times> 'v event \<times> ('e + 'v)) list" where
  "requests lib w = trace (snd (run_all lib w))"

definition final_world :: "('e, 'v, 'w) library \<Rightarrow> 'w \<Rightarrow> 'w" where
  "final_world lib w = world (snd (run_all lib w))"

subsection \<open>The source text of the cells\<close>

text \<open>
  The cells once more, as syntax: the statements and expressions of Python that a notebook
  cell can hold, and the six cells written in them. Comments are left out.
\<close>

datatype expr =
    Name string
  | Attribute expr string
  | Num int
  | Str string
  | Call expr "expr list"
  | BinOp expr string expr
  | Compare expr string expr
  | IfExp expr expr expr
  | Lambda "string list" expr
  | ListLit "expr list"
  | DictLit "(expr \<times> expr) list"

datatype stmt =
    Magic string string
  | Import string string
  | ImportFrom string string
  | Assign string expr
  | Expr expr
  | IfStmt expr "stmt list" "stmt list"
  | While expr "stmt list"
  | For string expr "stmt list"
  | Try "stmt list" "stmt list"
  | With expr "stmt list"
  | FunctionDef string "string list" "stmt list"
  | ClassDef string "stmt list"
  | Return expr
  | Raise expr
  | Assert expr

definition source_1 :: "stmt list" where
  "source_1 =
     [Magic ''matplotlib'' ''inline'',
      Import ''numpy'' ''np'',
      ImportFrom ''IPython.display'' ''set_matplotlib_formats'',
      Expr (Call (Name ''set_matplotlib_formats'') [Str ''retina''])]"

definition source_2 :: "stmt list" where
  "source_2 =
     [ImportFrom ''matplotlib.backends.backend_agg'' ''FigureCanvasAgg'',
      ImportFrom ''matplotlib.figure'' ''Figure'']"

definition source_3 :: "stmt list" where
  "source_3 =
     [Assign ''fig'' (Call (Name ''Figure'') []),
      Assign ''canvas'' (Call (Name ''FigureCanvasAgg'') [Name ''fig''])]"

definition source_4 :: "stmt list" where
  "source_4 =
     [Assign ''x'' (Call (Attribute (Attribute (Name ''np'') ''random'') ''randn'') [Num 10000])]"

definition source_5 :: "stmt list" where
  "source_5 =
     [Assign ''ax'' (Call (Attribute (Name ''fig'') ''add_subplot'') [Num 111]),
      Expr (Call (Attribute (Name ''ax'') ''hist'') [Name ''x'', Num 100]),
      Expr (Call (Attribute (Name ''ax'') ''set_title'') [Str title])]"

definition source_6 :: "stmt list" where
  "source_6 =
     [ImportFrom ''IPython.display'' ''display_png'',
      Expr (Call (Name ''display_png'') [Name ''fig''])]"

definition notebook_source :: "stmt list list" where
  "notebook_source = [source_1, source_2, source_3, source_4, source_5, source_6]"

text \<open>
  A statement is a direct invocation when it is a line magic, an import, or a call
  (assigned to a variable or not) of a name or dotted name on names and literals. A
  conditional, a loop, a \<open>try\<close>, a \<open>with\<close>, a function or class definition, a
  \<open>return\<close>, \<open>raise\<close> or \<open>assert\<close>, an operator, a lambda and a list or dictionary
  display are not.
\<close>

fun atom :: "expr \<Rightarrow> bool" where
  "atom (Name n) = True"
| "atom (Num i) = True"
| "atom (Str s) = True"
| "atom e = False"

fun path :: "expr \<Rightarrow> bool" where
  "path (Name n) = True"
| "path (Attribute e a) = path e"
| "path e = False"

fun library_call :: "expr \<Rightarrow> bool" where
  "library_call (Call f args) = (path f \<and> list_all atom args)"
| "library_call e = False"

fun direct_invocation :: "stmt \<Rightarrow> bool" where
  "direct_invocation (Magic n a) = True"
| "direct_invocation (Import m a) = True"
| "direct_invocation (ImportFrom m n) = True"
| "direct_invocation (Assign v e) = library_call e"
| "direct_invocation (Expr e) = library_call e"
| "direct_invocation s = False"

definition straight_line :: "stmt list list \<Rightarrow> bool" where
  "straight_line cells = list_all (list_all direct_invocation) cells"

text \<open>
  The meaning of the statements that are direct invocations, as requests to the library.
  The environment holds the variables that assignments have bound. A call
  \<open>v.m(args)\<close> on such a variable is a method call on its value; any other callee must
  be a dotted path of names that are not variables (an imported name, or an attribute of
  an imported module). \<open>None\<close> stands for a statement outside this fragment, or for a
  variable that no assignment has bound.
\<close>

type_synonym 'v env = "string \<rightharpoonup> 'v"

fun dotted :: "'v env \<Rightarrow> expr \<Rightarrow> string option" where
  "dotted env (Name n) = (case env n of None \<Rightarrow> Some n | Some v \<Rightarrow> None)"
| "dotted env (Attribute e a) = map_option (\<lambda>p. p @ ''.'' @ a) (dotted env e)"
| "dotted env e = None"

fun receiver :: "'v env \<Rightarrow> expr \<Rightarrow> ('v \<times> string) option" where
  "receiver env (Attribute (Name n) m) = map_option (\<lambda>v. (v, m)) (env n)"
| "receiver env e = None"

fun argument :: "'v env \<Rightarrow> expr \<Rightarrow> 'v arg option" where
  "argument env (Name n) = map_option Ref (env n)"
| "argument env (Num i) = Some (IntLit i)"
| "argument env (Str s) = Some (StrLit s)"
| "argument env e = None"

fun request :: "'v env \<Rightarrow> expr \<Rightarrow> 'v event option" where
  "request env (Call f args) =
     (case those (map (argument env) args) of
        None \<Rightarrow> None
      | Some as \<Rightarrow>
          (case receiver env f of
             Some (recv, m) \<Rightarrow> Some (CallMethod recv m as)
           | None \<Rightarrow> map_option (\<lambda>p. CallFn p as) (dotted env f)))"
| "request env e = None"

fun exec_stmt ::
  "stmt \<Rightarrow> 'v env \<Rightarrow> ('e, 'v, 'w) library \<Rightarrow> ('e, 'v, 'w) kernel \<Rightarrow>
     (('e + 'v env) \<times> ('e, 'v, 'w) kernel) option" where
  "exec_stmt (Magic n a) env lib k =
     Some (py_bind (invoke (LineMagic n a)) (\<lambda>_. py_return env) lib k)"
| "exec_stmt (Import m a) env lib k =
     Some (py_bind (invoke (ImportAs m a)) (\<lambda>_. py_return env) lib k)"
| "exec_stmt (ImportFrom m n) env lib k =
     Some (py_bind (invoke (FromImport m n)) (\<lambda>_. py_return env) lib k)"
| "exec_stmt (Assign v e) env lib k =
     (case request env e of
        None \<Rightarrow> None
      | Some ev \<Rightarrow> Some (py_bind (invoke ev) (\<lambda>r. py_return (env(v \<mapsto> r))) lib k))"
| "exec_stmt (Expr e) env lib k =
     (case request env e of
        None \<Rightarrow> None
      | Some ev \<Rightarrow> Some (py_bind (invoke ev) (\<lambda>_. py_return env) lib k))"
| "exec_stmt s env lib k = None"

fun exec_block ::
  "stmt list \<Rightarrow> 'v env \<Rightarrow> ('e, 'v, 'w) library \<Rightarrow> ('e, 'v, 'w) kernel \<Rightarrow>
     (('e + 'v env) \<times> ('e, 'v, 'w) kernel) option" where
  "exec_block [] env lib k = Some (Inr env, k)"
| "exec_block (s # ss) env lib k =
     (case exec_stmt s env lib k of
        None \<Rightarrow> None
      | Some (Inl e, k') \<Rightarrow> Some (Inl e, k')
      | Some (Inr env', k') \<Rightarrow> exec_block ss env' lib k')"

fun exec_cells ::
  "stmt list list \<Rightarrow> 'v env \<Rightarrow> ('e, 'v, 'w) library \<Rightarrow> ('e, 'v, 'w) kernel \<Rightarrow>
     (('e + 'v env) \<times> ('e, 'v, 'w) kernel) option" where
  "exec_cells [] env lib k = Some (Inr env, k)"
| "exec_cells (c # cs) env lib k =
     (case exec_block c env lib (k\<lparr>execution_count := Suc (execution_count k)\<rparr>) of
        None \<Rightarrow> None
      | Some (Inl e, k') \<Rightarrow> Some (Inl e, k')
      | Some (Inr env', k') \<Rightarrow> exec_cells cs env' lib k')"

text \<open>The result of the notebook, without the final environment.\<close>

definition forget ::
  "(('e + 'v env) \<times> ('e, 'v, 'w) kernel) option \<Rightarrow> (('e + unit) \<times> ('e, 'v, 'w) kernel) option" where
  "forget = map_option (\<lambda>(res, k). (map_sum id (\<lambda>env. ()) res, k))"

definition exec_notebook ::
  "stmt list list \<Rightarrow> ('e, 'v, 'w) library \<Rightarrow> 'w \<Rightarrow> (('e + unit) \<times> ('e, 'v, 'w) kernel) option" where
  "exec_notebook cells lib w = forget (exec_cells cells Map.empty lib (fresh_kernel w))"

subsection \<open>Reading the record of a run\<close>

definition events_of :: "(nat \<times> 'v event \<times> ('e + 'v)) list \<Rightarrow> 'v event list" where
  "events_of tr = map (\<lambda>(c, ev, r). ev) tr"

text \<open>The exceptions the library raised, in the order in which it raised them.\<close>

definition exceptions :: "(nat \<times> 'v event \<times> ('e + 'v)) list \<Rightarrow> 'e list" where
  "exceptions tr = concat (map (\<lambda>(c, ev, r). case r of Inl e \<Rightarrow> [e] | Inr v \<Rightarrow> []) tr)"

text \<open>The world after the library has handled the given requests, one after the other.\<close>

fun replay :: "('e, 'v, 'w) library \<Rightarrow> 'w \<Rightarrow> 'v event list \<Rightarrow> 'w" where
  "replay lib w [] = w"
| "replay lib w (ev # evs) = replay lib (snd (lib ev w)) evs"

text \<open>
  A record is truthful when each entry holds what the library answers to the request in
  the world that the earlier requests have left.
\<close>

fun truthful :: "('e, 'v, 'w) library \<Rightarrow> 'w \<Rightarrow> (nat \<times> 'v event \<times> ('e + 'v)) list \<Rightarrow> bool" where
  "truthful lib w [] = True"
| "truthful lib w ((c, ev, r) # tr) = (fst (lib ev w) = r \<and> truthful lib (snd (lib ev w)) tr)"

text \<open>A request with the run-time values taken out: what the source text alone fixes.\<close>

definition shape :: "'v event \<Rightarrow> unit event" where
  "shape ev = map_event (\<lambda>_. ()) ev"

definition call_sequence :: "unit event list" where
  "call_sequence =
     [LineMagic ''matplotlib'' ''inline'',
      ImportAs ''numpy'' ''np'',
      FromImport ''IPython.display'' ''set_matplotlib_formats'',
      CallFn ''set_matplotlib_formats'' [StrLit ''retina''],
      FromImport ''matplotlib.backends.backend_agg'' ''FigureCanvasAgg'',
      FromImport ''matplotlib.figure'' ''Figure'',
      CallFn ''Figure'' [],
      CallFn ''FigureCanvasAgg'' [Ref ()],
      CallFn ''np.random.randn'' [IntLit 10000],
      CallMethod () ''add_subplot'' [IntLit 111],
      CallMethod () ''hist'' [Ref (), IntLit 100],
      CallMethod () ''set_title'' [StrLit title],
      FromImport ''IPython.display'' ''display_png'',
      CallFn ''display_png'' [Ref ()]]"



fun calls_function :: "string \<Rightarrow> 'v event \<Rightarrow> bool" where
  "calls_function name (CallFn f args) = (f = name)"
| "calls_function name ev = False"

fun calls_method :: "string \<Rightarrow> 'v event \<Rightarrow> bool" where
  "calls_method name (CallMethod recv m args) = (m = name)"
| "calls_method name ev = False"

text \<open>
  The record of a run in which no request raised: \<open>fig\<close>, \<open>canvas\<close>, \<open>x\<close> and \<open>ax\<close>
  are the answers that the program keeps in variables, and \<open>r 0\<close>, \<open>\<dots>\<close>, \<open>r 9\<close> the
  answers that it drops.
\<close>

definition record_of ::
  "'v \<Rightarrow> 'v \<Rightarrow> 'v \<Rightarrow> 'v \<Rightarrow> (nat \<Rightarrow> 'v) \<Rightarrow> (nat \<times> 'v event \<times> ('e + 'v)) list" where
  "record_of fig canvas x ax r =
     [(1, LineMagic ''matplotlib'' ''inline'', Inr (r 0)),
      (1, ImportAs ''numpy'' ''np'', Inr (r 1)),
      (1, FromImport ''IPython.display'' ''set_matplotlib_formats'', Inr (r 2)),
      (1, CallFn ''set_matplotlib_formats'' [StrLit ''retina''], Inr (r 3)),
      (2, FromImport ''matplotlib.backends.backend_agg'' ''FigureCanvasAgg'', Inr (r 4)),
      (2, FromImport ''matplotlib.figure'' ''Figure'', Inr (r 5)),
      (3, CallFn ''Figure'' [], Inr fig),
      (3, CallFn ''FigureCanvasAgg'' [Ref fig], Inr canvas),
      (4, CallFn ''np.random.randn'' [IntLit 10000], Inr x),
      (5, CallMethod fig ''add_subplot'' [IntLit 111], Inr ax),
      (5, CallMethod ax ''hist'' [Ref x, IntLit 100], Inr (r 6)),
      (5, CallMethod ax ''set_title'' [StrLit title], Inr (r 7)),
      (6, FromImport ''IPython.display'' ''display_png'', Inr (r 8)),
      (6, CallFn ''display_png'' [Ref fig], Inr (r 9))]"

text \<open>
  \<open>stopped e new T\<close>: the record \<open>new\<close> is the record \<open>T\<close> up to one of its requests,
  and the answer to that request in \<open>new\<close> is the exception \<open>e\<close>. \<open>runs_as res new T\<close>:
  a run with result \<open>res\<close> and record \<open>new\<close> is the run \<open>T\<close>, complete when it ended
  normally and stopped by the exception otherwise.
\<close>

fun stopped ::
  "'e \<Rightarrow> (nat \<times> 'v event \<times> ('e + 'v)) list \<Rightarrow> (nat \<times> 'v event \<times> ('e + 'v)) list \<Rightarrow> bool" where
  "stopped e [] T = False"
| "stopped e (n # new) [] = False"
| "stopped e ((c, ev, r) # new) ((c', ev', r') # T) =
     (c = c' \<and> ev = ev' \<and> (if new = [] then r = Inl e else r = r' \<and> stopped e new T))"

fun runs_as ::
  "'e + 'a \<Rightarrow> (nat \<times> 'v event \<times> ('e + 'v)) list \<Rightarrow> (nat \<times> 'v event \<times> ('e + 'v)) list \<Rightarrow> bool" where
  "runs_as (Inr a) new T \<longleftrightarrow> new = T"
| "runs_as (Inl e) new T \<longleftrightarrow> stopped e new T"

text \<open>
  The steps as the specification lists them: a Figure, a FigureCanvasAgg on it, a random
  sample, an Axes with a histogram of the sample and a title, and the display of the
  Figure.
\<close>

definition listed_steps :: "'v \<Rightarrow> 'v \<Rightarrow> 'v \<Rightarrow> 'v event list" where
  "listed_steps fig x ax =
     [CallFn ''Figure'' [],
      CallFn ''FigureCanvasAgg'' [Ref fig],
      CallFn ''np.random.randn'' [IntLit 10000],
      CallMethod fig ''add_subplot'' [IntLit 111],
      CallMethod ax ''hist'' [Ref x, IntLit 100],
      CallMethod ax ''set_title'' [StrLit title],
      CallFn ''display_png'' [Ref fig]]"

subsection \<open>What a computation does, whatever the library\<close>

text \<open>
  \<open>extends lib k k' new\<close>: the kernel \<open>k'\<close> comes from \<open>k\<close> by the requests \<open>new\<close>, recorded
  truthfully, and its world is the one the library has made of them.
\<close>

definition extends ::
  "('e, 'v, 'w) library \<Rightarrow> ('e, 'v, 'w) kernel \<Rightarrow> ('e, 'v, 'w) kernel \<Rightarrow>
     (nat \<times> 'v event \<times> ('e + 'v)) list \<Rightarrow> bool" where
  "extends lib k k' new \<longleftrightarrow>
     trace k' = trace k @ new \<and> truthful lib (world k) new \<and>
     world k' = replay lib (world k) (events_of new)"

text \<open>
  \<open>verdict res new script\<close>: a computation that ends normally has made the requests of
  its script, none of which raised; one that ends with the exception \<open>e\<close> has made an
  initial part of them, and \<open>e\<close> is what the library answered to the last one.
\<close>

fun verdict :: "'e + 'a \<Rightarrow> (nat \<times> 'v event \<times> ('e + 'v)) list \<Rightarrow> unit event list \<Rightarrow> bool" where
  "verdict (Inr a) new script \<longleftrightarrow> exceptions new = [] \<and> map shape (events_of new) = script"
| "verdict (Inl e) new script \<longleftrightarrow>
     (\<exists>pre c ev. new = pre @ [(c, ev, Inl e)] \<and> exceptions pre = []) \<and>
     prefix (map shape (events_of new)) script"

definition performs :: "('e, 'v, 'w, 'a) py \<Rightarrow> unit event list \<Rightarrow> bool" where
  "performs m script \<longleftrightarrow>
     (\<forall>lib k. \<exists>new. extends lib k (snd (m lib k)) new \<and> verdict (fst (m lib k)) new script)"

subsection \<open>A small library to run the notebook on\<close>

text \<open>
  A stand-in for the libraries, on which the notebook can be evaluated. Its world knows
  which modules are installed, numbers the objects it creates, holds the state of the
  random generator, and keeps what has been sent to the front end. A sample is described
  by the generator state it was drawn at and by its size.
\<close>

datatype stub_exception = ImportError string

datatype stub_value = NoneVal | Obj nat | Sample nat nat

record stub_world =
  modules :: "string list"
  next_object :: nat
  generator :: nat
  published :: "stub_value list"

fun stub_library :: "(stub_exception, stub_value, stub_world) library" where
  "stub_library (LineMagic name a) w = (Inr NoneVal, w)"
| "stub_library (ImportAs m alias) w =
     (if m \<in> set (modules w) then (Inr NoneVal, w) else (Inl (ImportError m), w))"
| "stub_library (FromImport m name) w =
     (if m \<in> set (modules w) then (Inr NoneVal, w) else (Inl (ImportError m), w))"
| "stub_library (CallFn f args) w =
     (if f = ''Figure'' \<or> f = ''FigureCanvasAgg''
      then (Inr (Obj (next_object w)), w\<lparr>next_object := Suc (next_object w)\<rparr>)
      else if f = ''np.random.randn''
      then (case args of
              [IntLit n] \<Rightarrow> (Inr (Sample (generator w) (nat n)),
                              w\<lparr>generator := Suc (generator w)\<rparr>)
            | _ \<Rightarrow> (Inr NoneVal, w))
      else if f = ''display_png''
      then (case args of
              [Ref v] \<Rightarrow> (Inr NoneVal, w\<lparr>published := published w @ [v]\<rparr>)
            | _ \<Rightarrow> (Inr NoneVal, w))
      else (Inr NoneVal, w))"
| "stub_library (CallMethod recv m args) w =
     (if m = ''add_subplot''
      then (Inr (Obj (next_object w)), w\<lparr>next_object := Suc (next_object w)\<rparr>)
      else (Inr NoneVal, w))"

definition stub_world :: "nat \<Rightarrow> stub_world" where
  "stub_world g =
     \<lparr>modules = [''numpy'', ''IPython.display'', ''matplotlib.backends.backend_agg'',
                 ''matplotlib.figure''],
      next_object = 0, generator = g, published = []\<rparr>"

text \<open>The same world without matplotlib.\<close>

definition bare_world :: "nat \<Rightarrow> stub_world" where
  "bare_world g =
     \<lparr>modules = [''numpy'', ''IPython.display''],
      next_object = 0, generator = g, published = []\<rparr>"

section \<open>Properties\<close>

subsection \<open>The record of a run\<close>

lemma events_of_append [simp]: "events_of (a @ b) = events_of a @ events_of b"
  by (simp add: events_of_def)

lemma exceptions_append [simp]: "exceptions (a @ b) = exceptions a @ exceptions b"
  by (simp add: exceptions_def)

lemma replay_append [simp]: "replay lib w (a @ b) = replay lib (replay lib w a) b"
  by (induction a arbitrary: w) simp_all

lemma truthful_append [simp]:
  "truthful lib w (a @ b) \<longleftrightarrow> truthful lib w a \<and> truthful lib (replay lib w (events_of a)) b"
proof (induction a arbitrary: w)
  case Nil
  show ?case by (simp add: events_of_def)
next
  case (Cons entry a)
  obtain c ev r where entry: "entry = (c, ev, r)" by (cases entry)
  show ?case by (simp add: entry Cons.IH events_of_def)
qed

lemma extends_refl: "extends lib k k []"
  by (simp add: extends_def events_of_def)

lemma extends_trans:
  "extends lib k k1 new1 \<Longrightarrow> extends lib k1 k2 new2 \<Longrightarrow> extends lib k k2 (new1 @ new2)"
  by (simp add: extends_def)

lemma extends_count:
  "extends lib (k\<lparr>execution_count := n\<rparr>) k' new \<longleftrightarrow> extends lib k k' new"
  by (simp add: extends_def)

lemma verdict_first_raises:
  "verdict (Inl e) new s1 \<Longrightarrow> verdict (Inl e :: 'e + 'b) new (s1 @ s2)"
  by simp

lemma verdict_then:
  assumes "verdict (Inr a) new1 s1" and "verdict res new2 s2"
  shows "verdict res (new1 @ new2) (s1 @ s2)"
proof (cases res)
  case (Inr b)
  with assms show ?thesis by simp
next
  case (Inl e)
  with assms obtain pre c ev where n2: "new2 = pre @ [(c, ev, Inl e)]"
    and ep: "exceptions pre = []" and p2: "prefix (map shape (events_of new2)) s2"
    by auto
  have "new1 @ new2 = (new1 @ pre) @ [(c, ev, Inl e)]" using n2 by simp
  moreover have "exceptions (new1 @ pre) = []" using assms(1) ep by simp
  ultimately have "\<exists>pre c ev. new1 @ new2 = pre @ [(c, ev, Inl e)] \<and> exceptions pre = []"
    by blast
  moreover have "prefix (map shape (events_of (new1 @ new2))) (s1 @ s2)"
    using assms(1) p2 by simp
  ultimately show ?thesis using Inl by simp
qed

lemma performs_return: "performs (py_return a) []"
  by (simp add: performs_def py_return_def extends_refl exceptions_def events_of_def)

lemma performs_invoke: "performs (invoke ev :: ('e, 'v, 'w, 'v) py) [shape ev]"
  unfolding performs_def
proof (intro allI)
  fix lib :: "('e, 'v, 'w) library" and k :: "('e, 'v, 'w) kernel"
  obtain r w' where l: "lib ev (world k) = (r, w')" by (cases "lib ev (world k)")
  let ?new = "[(execution_count k, ev, r)]"
  have "extends lib k (snd (invoke ev lib k)) ?new"
    by (simp add: invoke_def l extends_def events_of_def)
  moreover have "verdict (fst (invoke ev lib k)) ?new [shape ev]"
  proof (cases r)
    case (Inl e)
    have "?new = [] @ [(execution_count k, ev, Inl e)] \<and> exceptions ([] :: (nat \<times> 'v event \<times> ('e + 'v)) list) = []"
      using Inl by (simp add: exceptions_def)
    then have "\<exists>pre c ev'. ?new = pre @ [(c, ev', Inl e)] \<and> exceptions pre = []" by blast
    then show ?thesis using Inl by (simp add: invoke_def l events_of_def)
  next
    case (Inr v)
    then show ?thesis by (simp add: invoke_def l events_of_def exceptions_def)
  qed
  ultimately show "\<exists>new. extends lib k (snd (invoke ev lib k)) new \<and>
      verdict (fst (invoke ev lib k)) new [shape ev]" by blast
qed

lemma performs_run_cell:
  fixes body :: "('e, 'v, 'w, 'a) py"
  assumes "performs body script"
  shows "performs (run_cell body) script"
  unfolding performs_def run_cell_def
proof (intro allI)
  fix lib :: "('e, 'v, 'w) library" and k :: "('e, 'v, 'w) kernel"
  let ?k = "k\<lparr>execution_count := Suc (execution_count k)\<rparr>"
  from assms [unfolded performs_def] obtain new
    where "extends lib ?k (snd (body lib ?k)) new" and "verdict (fst (body lib ?k)) new script"
    by blast
  then show "\<exists>new. extends lib k (snd (body lib ?k)) new \<and> verdict (fst (body lib ?k)) new script"
    by (auto simp: extends_count)
qed

lemma performs_bind:
  fixes m :: "('e, 'v, 'w, 'a) py" and f :: "'a \<Rightarrow> ('e, 'v, 'w, 'b) py"
  assumes m: "performs m s1" and f: "\<And>a. performs (f a) s2"
  shows "performs (py_bind m f) (s1 @ s2)"
  unfolding performs_def
proof (intro allI)
  fix lib :: "('e, 'v, 'w) library" and k :: "('e, 'v, 'w) kernel"
  obtain res1 k1 where mk: "m lib k = (res1, k1)" by (cases "m lib k")
  from m [unfolded performs_def] obtain new1
    where x1: "extends lib k (snd (m lib k)) new1" and v1: "verdict (fst (m lib k)) new1 s1"
    by blast
  show "\<exists>new. extends lib k (snd (py_bind m f lib k)) new \<and>
      verdict (fst (py_bind m f lib k)) new (s1 @ s2)"
  proof (cases res1)
    case (Inl e)
    then have "py_bind m f lib k = (Inl e, k1)" using mk by (simp add: py_bind_def)
    moreover have "verdict (Inl e :: 'e + 'b) new1 (s1 @ s2)"
      using v1 mk Inl by simp
    ultimately show ?thesis using x1 mk by auto
  next
    case (Inr a)
    then have run: "py_bind m f lib k = f a lib k1" using mk by (simp add: py_bind_def)
    from f [of a, unfolded performs_def] obtain new2
      where x2: "extends lib k1 (snd (f a lib k1)) new2"
        and v2: "verdict (fst (f a lib k1)) new2 s2"
      by blast
    have "extends lib k (snd (f a lib k1)) (new1 @ new2)"
      using x1 x2 mk by (simp add: extends_trans)
    moreover have "verdict (fst (f a lib k1)) (new1 @ new2) (s1 @ s2)"
      using v1 v2 mk Inr by (simp add: verdict_then)
    ultimately show ?thesis unfolding run by blast
  qed
qed

lemma performs_invoke_then:
  fixes f :: "'v \<Rightarrow> ('e, 'v, 'w, 'b) py"
  assumes "\<And>v. performs (f v) s"
  shows "performs (py_bind (invoke ev) f) (shape ev # s)"
  using performs_bind [OF performs_invoke assms] by simp


lemma py_bind_success:
  assumes "py_bind m f lib k = (Inr u, k')"
  obtains a k1 where "m lib k = (Inr a, k1)" and "f a lib k1 = (Inr u, k')"
  using assms by (auto simp: py_bind_def split: prod.splits sum.splits)

lemma invoke_success:
  assumes "invoke ev lib k = (Inr v, k')"
  obtains w' where "lib ev (world k) = (Inr v, w')"
    and "k' = k\<lparr>world := w', trace := trace k @ [(execution_count k, ev, Inr v)]\<rparr>"
  using assms by (auto simp: invoke_def split: prod.splits)

lemma py_return_success:
  assumes "py_return a lib k = (Inr u, k')"
  shows "u = a \<and> k' = k"
  using assms by (simp add: py_return_def)

lemma cell_1_success:
  assumes "cell_1 lib k = (Inr u, k')"
  shows "\<exists>r1 r2 r3 r4. trace k' = trace k @
       [(execution_count k, LineMagic ''matplotlib'' ''inline'', Inr r1),
        (execution_count k, ImportAs ''numpy'' ''np'', Inr r2),
        (execution_count k, FromImport ''IPython.display'' ''set_matplotlib_formats'', Inr r3),
        (execution_count k, CallFn ''set_matplotlib_formats'' [StrLit ''retina''], Inr r4)]
     \<and> execution_count k' = execution_count k"
  using assms unfolding cell_1_def
  by (elim py_bind_success invoke_success) (auto dest!: py_return_success)

lemma cell_2_success:
  assumes "cell_2 lib k = (Inr u, k')"
  shows "\<exists>r5 r6. trace k' = trace k @
       [(execution_count k, FromImport ''matplotlib.backends.backend_agg'' ''FigureCanvasAgg'', Inr r5),
        (execution_count k, FromImport ''matplotlib.figure'' ''Figure'', Inr r6)]
     \<and> execution_count k' = execution_count k"
  using assms unfolding cell_2_def
  by (elim py_bind_success invoke_success) (auto dest!: py_return_success)

lemma cell_3_success:
  assumes "cell_3 lib k = (Inr (fig, canvas), k')"
  shows "trace k' = trace k @
       [(execution_count k, CallFn ''Figure'' [], Inr fig),
        (execution_count k, CallFn ''FigureCanvasAgg'' [Ref fig], Inr canvas)]
     \<and> execution_count k' = execution_count k"
  using assms unfolding cell_3_def
  by (elim py_bind_success invoke_success) (auto dest!: py_return_success)

lemma cell_4_success:
  assumes "cell_4 lib k = (Inr x, k')"
  shows "trace k' = trace k @
       [(execution_count k, CallFn ''np.random.randn'' [IntLit 10000], Inr x)]
     \<and> execution_count k' = execution_count k"
  using assms unfolding cell_4_def
  by (elim py_bind_success invoke_success) (auto dest!: py_return_success)

lemma cell_5_success:
  assumes "cell_5 fig x lib k = (Inr ax, k')"
  shows "\<exists>r11 r12. trace k' = trace k @
       [(execution_count k, CallMethod fig ''add_subplot'' [IntLit 111], Inr ax),
        (execution_count k, CallMethod ax ''hist'' [Ref x, IntLit 100], Inr r11),
        (execution_count k, CallMethod ax ''set_title'' [StrLit title], Inr r12)]
     \<and> execution_count k' = execution_count k"
  using assms unfolding cell_5_def
  by (elim py_bind_success invoke_success) (auto dest!: py_return_success)

lemma cell_6_success:
  assumes "cell_6 fig lib k = (Inr u, k')"
  shows "\<exists>r13 r14. trace k' = trace k @
       [(execution_count k, FromImport ''IPython.display'' ''display_png'', Inr r13),
        (execution_count k, CallFn ''display_png'' [Ref fig], Inr r14)]
     \<and> execution_count k' = execution_count k"
  using assms unfolding cell_6_def
  by (elim py_bind_success invoke_success) (auto dest!: py_return_success)

lemma run_all_success:
  assumes "outcome lib w = Inr u"
  shows "\<exists>fig canvas x ax r. requests lib w = record_of fig canvas x ax r"
proof -
  obtain kf where run: "notebook lib (fresh_kernel w) = (Inr u, kf)"
    using assms by (cases "run_all lib w") (simp add: run_all_def outcome_def)
  from run obtain u1 k1 where c1: "run_cell cell_1 lib (fresh_kernel w) = (Inr u1, k1)"
    and n1: "py_bind (run_cell cell_2) (\<lambda>_.
       py_bind (run_cell cell_3) (\<lambda>(fig, canvas).
       py_bind (run_cell cell_4) (\<lambda>x.
       py_bind (run_cell (cell_5 fig x)) (\<lambda>ax.
       run_cell (cell_6 fig))))) lib k1 = (Inr u, kf)"
    unfolding notebook_def by (rule py_bind_success)
  from n1 obtain u2 k2 where c2: "run_cell cell_2 lib k1 = (Inr u2, k2)"
    and n2: "py_bind (run_cell cell_3) (\<lambda>(fig, canvas).
       py_bind (run_cell cell_4) (\<lambda>x.
       py_bind (run_cell (cell_5 fig x)) (\<lambda>ax.
       run_cell (cell_6 fig)))) lib k2 = (Inr u, kf)"
    by (rule py_bind_success)
  from n2 obtain p k3 where c3': "run_cell cell_3 lib k2 = (Inr p, k3)"
    and n3': "(case p of (fig, canvas) \<Rightarrow>
       py_bind (run_cell cell_4) (\<lambda>x.
       py_bind (run_cell (cell_5 fig x)) (\<lambda>ax.
       run_cell (cell_6 fig)))) lib k3 = (Inr u, kf)"
    by (rule py_bind_success)
  obtain fig canvas where p: "p = (fig, canvas)" by (cases p)
  from c3' p have c3: "run_cell cell_3 lib k2 = (Inr (fig, canvas), k3)" by simp
  from n3' p have n3: "py_bind (run_cell cell_4) (\<lambda>x.
       py_bind (run_cell (cell_5 fig x)) (\<lambda>ax.
       run_cell (cell_6 fig))) lib k3 = (Inr u, kf)" by simp
  from n3 obtain x k4 where c4: "run_cell cell_4 lib k3 = (Inr x, k4)"
    and n4: "py_bind (run_cell (cell_5 fig x)) (\<lambda>ax.
       run_cell (cell_6 fig)) lib k4 = (Inr u, kf)"
    by (rule py_bind_success)
  from n4 obtain ax k5 where c5: "run_cell (cell_5 fig x) lib k4 = (Inr ax, k5)"
    and c6: "run_cell (cell_6 fig) lib k5 = (Inr u, kf)"
    by (rule py_bind_success)
  from cell_1_success [OF c1 [unfolded run_cell_def]]
  obtain r1 r2 r3 r4 where t1: "trace k1 =
       [(1, LineMagic ''matplotlib'' ''inline'', Inr r1),
        (1, ImportAs ''numpy'' ''np'', Inr r2),
        (1, FromImport ''IPython.display'' ''set_matplotlib_formats'', Inr r3),
        (1, CallFn ''set_matplotlib_formats'' [StrLit ''retina''], Inr r4)]"
    and e1: "execution_count k1 = 1"
    by (auto simp: fresh_kernel_def)
  from cell_2_success [OF c2 [unfolded run_cell_def]]
  obtain r5 r6 where t2: "trace k2 = trace k1 @
       [(2, FromImport ''matplotlib.backends.backend_agg'' ''FigureCanvasAgg'', Inr r5),
        (2, FromImport ''matplotlib.figure'' ''Figure'', Inr r6)]"
    and e2: "execution_count k2 = 2"
    by (auto simp: e1)
  from cell_3_success [OF c3 [unfolded run_cell_def]]
  have t3: "trace k3 = trace k2 @
       [(3, CallFn ''Figure'' [], Inr fig),
        (3, CallFn ''FigureCanvasAgg'' [Ref fig], Inr canvas)]"
    and e3: "execution_count k3 = 3"
    by (auto simp: e2)
  from cell_4_success [OF c4 [unfolded run_cell_def]]
  have t4: "trace k4 = trace k3 @
       [(4, CallFn ''np.random.randn'' [IntLit 10000], Inr x)]"
    and e4: "execution_count k4 = 4"
    by (auto simp: e3)
  from cell_5_success [OF c5 [unfolded run_cell_def]]
  obtain r11 r12 where t5: "trace k5 = trace k4 @
       [(5, CallMethod fig ''add_subplot'' [IntLit 111], Inr ax),
        (5, CallMethod ax ''hist'' [Ref x, IntLit 100], Inr r11),
        (5, CallMethod ax ''set_title'' [StrLit title], Inr r12)]"
    and e5: "execution_count k5 = 5"
    by (auto simp: e4)
  from cell_6_success [OF c6 [unfolded run_cell_def]]
  obtain r13 r14 where t6: "trace kf = trace k5 @
       [(6, FromImport ''IPython.display'' ''display_png'', Inr r13),
        (6, CallFn ''display_png'' [Ref fig], Inr r14)]"
    by (auto simp: e5)
  have "requests lib w =
      record_of fig canvas x ax (\<lambda>n. [r1, r2, r3, r4, r5, r6, r11, r12, r13, r14] ! n)"
    using run by (simp add: requests_def run_all_def record_of_def t1 t2 t3 t4 t5 t6)
  then show ?thesis by blast
qed


lemma performs_step:
  fixes f :: "'v \<Rightarrow> ('e, 'v, 'w, 'b) py"
  assumes "sh = shape ev" and "\<And>v. performs (f v) s"
  shows "performs (py_bind (invoke ev) f) (sh # s)"
  using performs_invoke_then [OF assms(2), of ev] assms(1) by simp

lemma performs_cell_1:
  "performs cell_1
     [LineMagic ''matplotlib'' ''inline'',
      ImportAs ''numpy'' ''np'',
      FromImport ''IPython.display'' ''set_matplotlib_formats'',
      CallFn ''set_matplotlib_formats'' [StrLit ''retina'']]"
  unfolding cell_1_def
  by (intro performs_step performs_return; simp add: shape_def)

lemma performs_cell_2:
  "performs cell_2
     [FromImport ''matplotlib.backends.backend_agg'' ''FigureCanvasAgg'',
      FromImport ''matplotlib.figure'' ''Figure'']"
  unfolding cell_2_def
  by (intro performs_step performs_return; simp add: shape_def)

lemma performs_cell_3:
  "performs cell_3 [CallFn ''Figure'' [], CallFn ''FigureCanvasAgg'' [Ref ()]]"
  unfolding cell_3_def
  by (intro performs_step performs_return; simp add: shape_def)

lemma performs_cell_4:
  "performs cell_4 [CallFn ''np.random.randn'' [IntLit 10000]]"
  unfolding cell_4_def
  by (intro performs_step performs_return; simp add: shape_def)

lemma performs_cell_5:
  "performs (cell_5 fig x)
     [CallMethod () ''add_subplot'' [IntLit 111],
      CallMethod () ''hist'' [Ref (), IntLit 100],
      CallMethod () ''set_title'' [StrLit title]]"
  unfolding cell_5_def
  by (intro performs_step performs_return; simp add: shape_def)

lemma performs_cell_6:
  "performs (cell_6 fig)
     [FromImport ''IPython.display'' ''display_png'', CallFn ''display_png'' [Ref ()]]"
  unfolding cell_6_def
  by (intro performs_step performs_return; simp add: shape_def)

lemma performs_notebook: "performs notebook call_sequence"
proof -
  have "performs notebook
     ([LineMagic ''matplotlib'' ''inline'',
       ImportAs ''numpy'' ''np'',
       FromImport ''IPython.display'' ''set_matplotlib_formats'',
       CallFn ''set_matplotlib_formats'' [StrLit ''retina'']] @
      [FromImport ''matplotlib.backends.backend_agg'' ''FigureCanvasAgg'',
       FromImport ''matplotlib.figure'' ''Figure''] @
      [CallFn ''Figure'' [], CallFn ''FigureCanvasAgg'' [Ref ()]] @
      [CallFn ''np.random.randn'' [IntLit 10000]] @
      [CallMethod () ''add_subplot'' [IntLit 111],
       CallMethod () ''hist'' [Ref (), IntLit 100],
       CallMethod () ''set_title'' [StrLit title]] @
      [FromImport ''IPython.display'' ''display_png'', CallFn ''display_png'' [Ref ()]])"
    unfolding notebook_def case_prod_beta
    by (intro performs_bind performs_run_cell performs_cell_1 performs_cell_2 performs_cell_3
        performs_cell_4 performs_cell_5 performs_cell_6)
  then show ?thesis by (simp add: call_sequence_def)
qed

lemma run_all_record:
  "truthful lib w (requests lib w) \<and>
   final_world lib w = replay lib w (events_of (requests lib w)) \<and>
   verdict (outcome lib w) (requests lib w) call_sequence"
proof -
  from performs_notebook [unfolded performs_def] obtain new
    where x: "extends lib (fresh_kernel w) (snd (notebook lib (fresh_kernel w))) new"
      and v: "verdict (fst (notebook lib (fresh_kernel w))) new call_sequence"
    by blast
  from x have "requests lib w = new"
    by (simp add: extends_def requests_def run_all_def fresh_kernel_def)
  with x v show ?thesis
    by (simp add: extends_def requests_def final_world_def outcome_def run_all_def
        fresh_kernel_def)
qed

lemma stub_run_succeeds: "outcome stub_library (stub_world g) = Inr ()"
  by (simp add: outcome_def run_all_def notebook_def cell_1_def cell_2_def cell_3_def
      cell_4_def cell_5_def cell_6_def run_cell_def py_bind_def py_return_def invoke_def
      fresh_kernel_def stub_world_def)

lemma stub_requests:
  "requests stub_library (stub_world g) =
       [(1, LineMagic ''matplotlib'' ''inline'', Inr NoneVal),
        (1, ImportAs ''numpy'' ''np'', Inr NoneVal),
        (1, FromImport ''IPython.display'' ''set_matplotlib_formats'', Inr NoneVal),
        (1, CallFn ''set_matplotlib_formats'' [StrLit ''retina''], Inr NoneVal),
        (2, FromImport ''matplotlib.backends.backend_agg'' ''FigureCanvasAgg'', Inr NoneVal),
        (2, FromImport ''matplotlib.figure'' ''Figure'', Inr NoneVal),
        (3, CallFn ''Figure'' [], Inr (Obj 0)),
        (3, CallFn ''FigureCanvasAgg'' [Ref (Obj 0)], Inr (Obj 1)),
        (4, CallFn ''np.random.randn'' [IntLit 10000], Inr (Sample g 10000)),
        (5, CallMethod (Obj 0) ''add_subplot'' [IntLit 111], Inr (Obj 2)),
        (5, CallMethod (Obj 2) ''hist'' [Ref (Sample g 10000), IntLit 100], Inr NoneVal),
        (5, CallMethod (Obj 2) ''set_title'' [StrLit title], Inr NoneVal),
        (6, FromImport ''IPython.display'' ''display_png'', Inr NoneVal),
        (6, CallFn ''display_png'' [Ref (Obj 0)], Inr NoneVal)]"
  by (simp add: requests_def run_all_def notebook_def cell_1_def cell_2_def cell_3_def
      cell_4_def cell_5_def cell_6_def run_cell_def py_bind_def py_return_def invoke_def
      fresh_kernel_def stub_world_def)

lemma bare_run_raises:
  "outcome stub_library (bare_world g) = Inl (ImportError ''matplotlib.backends.backend_agg'')"
  by (simp add: outcome_def run_all_def notebook_def cell_1_def cell_2_def cell_3_def
      cell_4_def cell_5_def cell_6_def run_cell_def py_bind_def py_return_def invoke_def
      fresh_kernel_def bare_world_def)

lemma bare_requests:
  "requests stub_library (bare_world g) =
       [(1, LineMagic ''matplotlib'' ''inline'', Inr NoneVal),
        (1, ImportAs ''numpy'' ''np'', Inr NoneVal),
        (1, FromImport ''IPython.display'' ''set_matplotlib_formats'', Inr NoneVal),
        (1, CallFn ''set_matplotlib_formats'' [StrLit ''retina''], Inr NoneVal),
        (2, FromImport ''matplotlib.backends.backend_agg'' ''FigureCanvasAgg'',
            Inl (ImportError ''matplotlib.backends.backend_agg''))]"
  by (simp add: requests_def run_all_def notebook_def cell_1_def cell_2_def cell_3_def
      cell_4_def cell_5_def cell_6_def run_cell_def py_bind_def py_return_def invoke_def
      fresh_kernel_def bare_world_def)

subsection \<open>Every run, with its values\<close>

lemma stopped_nonempty: "stopped e new T \<Longrightarrow> new \<noteq> []"
  by (cases new) simp_all

lemma stopped_Cons: "stopped e new T \<Longrightarrow> stopped e (x # new) (x # T)"
  by (cases x) (auto dest: stopped_nonempty)

lemma stopped_prepend: "stopped e new T \<Longrightarrow> stopped e (T0 @ new) (T0 @ T)"
  by (induction T0) (simp_all add: stopped_Cons)

lemma stopped_extend: "stopped e new T1 \<Longrightarrow> stopped e new (T1 @ T2)"
proof (induction e new T1 rule: stopped.induct)
  case (1 e T)
  then show ?case by simp
next
  case (2 e n new)
  then show ?case by simp
next
  case (3 e c ev r new c' ev' r' T)
  then show ?case by (cases "new = []") simp_all
qed

lemma runs_as_prepend: "runs_as res new T \<Longrightarrow> runs_as res (T0 @ new) (T0 @ T)"
  by (cases res) (simp_all add: stopped_prepend)

lemma runs_as_extend:
  "runs_as (Inl e :: 'e + 'a) new T1 \<Longrightarrow> runs_as (Inl e :: 'e + 'b) new (T1 @ T2)"
  by (simp add: stopped_extend)

lemma py_bind_raised: "fst (m lib k) = Inl e \<Longrightarrow> py_bind m f lib k = (Inl e, snd (m lib k))"
  by (cases "m lib k") (simp add: py_bind_def)

lemma py_bind_returned: "fst (m lib k) = Inr a \<Longrightarrow> py_bind m f lib k = f a lib (snd (m lib k))"
  by (cases "m lib k") (simp add: py_bind_def)

lemma cell_1_runs:
  assumes "Suc (execution_count k) = n"
  shows "\<exists>r0 r1 r2 r3 new.
     trace (snd (run_cell cell_1 lib k)) = trace k @ new \<and>
     execution_count (snd (run_cell cell_1 lib k)) = n \<and>
     runs_as (fst (run_cell cell_1 lib k)) new
       [(n, LineMagic ''matplotlib'' ''inline'', Inr r0),
        (n, ImportAs ''numpy'' ''np'', Inr r1),
        (n, FromImport ''IPython.display'' ''set_matplotlib_formats'', Inr r2),
        (n, CallFn ''set_matplotlib_formats'' [StrLit ''retina''], Inr r3)]"
  unfolding run_cell_def cell_1_def py_bind_def py_return_def invoke_def
  using assms by (auto split: prod.splits sum.splits)

lemma cell_2_runs:
  assumes "Suc (execution_count k) = n"
  shows "\<exists>r4 r5 new.
     trace (snd (run_cell cell_2 lib k)) = trace k @ new \<and>
     execution_count (snd (run_cell cell_2 lib k)) = n \<and>
     runs_as (fst (run_cell cell_2 lib k)) new
       [(n, FromImport ''matplotlib.backends.backend_agg'' ''FigureCanvasAgg'', Inr r4),
        (n, FromImport ''matplotlib.figure'' ''Figure'', Inr r5)]"
  unfolding run_cell_def cell_2_def py_bind_def py_return_def invoke_def
  using assms by (auto split: prod.splits sum.splits)

lemma cell_3_runs:
  assumes "Suc (execution_count k) = n"
  shows "\<exists>fig canvas new.
     trace (snd (run_cell cell_3 lib k)) = trace k @ new \<and>
     execution_count (snd (run_cell cell_3 lib k)) = n \<and>
     (\<forall>a. fst (run_cell cell_3 lib k) = Inr a \<longrightarrow> a = (fig, canvas)) \<and>
     runs_as (fst (run_cell cell_3 lib k)) new
       [(n, CallFn ''Figure'' [], Inr fig),
        (n, CallFn ''FigureCanvasAgg'' [Ref fig], Inr canvas)]"
  unfolding run_cell_def cell_3_def py_bind_def py_return_def invoke_def
  using assms by (auto split: prod.splits sum.splits)

lemma cell_4_runs:
  assumes "Suc (execution_count k) = n"
  shows "\<exists>x new.
     trace (snd (run_cell cell_4 lib k)) = trace k @ new \<and>
     execution_count (snd (run_cell cell_4 lib k)) = n \<and>
     (\<forall>a. fst (run_cell cell_4 lib k) = Inr a \<longrightarrow> a = x) \<and>
     runs_as (fst (run_cell cell_4 lib k)) new
       [(n, CallFn ''np.random.randn'' [IntLit 10000], Inr x)]"
  unfolding run_cell_def cell_4_def py_bind_def py_return_def invoke_def
  using assms by (auto split: prod.splits sum.splits)

lemma cell_5_runs:
  assumes "Suc (execution_count k) = n"
  shows "\<exists>ax r6 r7 new.
     trace (snd (run_cell (cell_5 fig x) lib k)) = trace k @ new \<and>
     execution_count (snd (run_cell (cell_5 fig x) lib k)) = n \<and>
     (\<forall>a. fst (run_cell (cell_5 fig x) lib k) = Inr a \<longrightarrow> a = ax) \<and>
     runs_as (fst (run_cell (cell_5 fig x) lib k)) new
       [(n, CallMethod fig ''add_subplot'' [IntLit 111], Inr ax),
        (n, CallMethod ax ''hist'' [Ref x, IntLit 100], Inr r6),
        (n, CallMethod ax ''set_title'' [StrLit title], Inr r7)]"
  unfolding run_cell_def cell_5_def py_bind_def py_return_def invoke_def
  using assms by (auto split: prod.splits sum.splits)

lemma cell_6_runs:
  assumes "Suc (execution_count k) = n"
  shows "\<exists>r8 r9 new.
     trace (snd (run_cell (cell_6 fig) lib k)) = trace k @ new \<and>
     execution_count (snd (run_cell (cell_6 fig) lib k)) = n \<and>
     runs_as (fst (run_cell (cell_6 fig) lib k)) new
       [(n, FromImport ''IPython.display'' ''display_png'', Inr r8),
        (n, CallFn ''display_png'' [Ref fig], Inr r9)]"
  unfolding run_cell_def cell_6_def py_bind_def py_return_def invoke_def
  using assms by (auto split: prod.splits sum.splits)

lemma runs_from_6:
  fixes lib :: "('e, 'v, 'w) library"
  assumes "execution_count k = 5"
  shows "\<exists>r new.
     trace (snd (run_cell (cell_6 fig) lib k)) = trace k @ new \<and>
     runs_as (fst (run_cell (cell_6 fig) lib k)) new (drop 12 (record_of fig canvas x ax r))"
proof -
  have n: "Suc (execution_count k) = 6" using assms by simp
  from cell_6_runs [OF n, of fig lib] obtain r8 r9 new where
    t: "trace (snd (run_cell (cell_6 fig) lib k)) = trace k @ new"
    and r: "runs_as (fst (run_cell (cell_6 fig) lib k)) new
       [(6, FromImport ''IPython.display'' ''display_png'', Inr r8),
        (6, CallFn ''display_png'' [Ref fig], Inr r9)]"
    by blast
  have "drop 12 (record_of fig canvas x ax (\<lambda>n. if n = 8 then r8 else r9) ::
          (nat \<times> 'v event \<times> ('e + 'v)) list) =
       [(6, FromImport ''IPython.display'' ''display_png'', Inr r8),
        (6, CallFn ''display_png'' [Ref fig], Inr r9)]"
    by (simp add: record_of_def)
  with t r show ?thesis by metis
qed

lemma runs_from_5:
  fixes lib :: "('e, 'v, 'w) library"
  assumes "execution_count k = 4"
  shows "\<exists>ax r new.
     trace (snd (py_bind (run_cell (cell_5 fig x)) (\<lambda>ax. run_cell (cell_6 fig)) lib k)) =
       trace k @ new \<and>
     runs_as (fst (py_bind (run_cell (cell_5 fig x)) (\<lambda>ax. run_cell (cell_6 fig)) lib k)) new
       (drop 9 (record_of fig canvas x ax r))"
proof -
  let ?k = "k\<lparr>execution_count := Suc (execution_count k)\<rparr>"
  let ?m = "run_cell (cell_5 fig x)"
  let ?f = "\<lambda>ax :: 'v. run_cell (cell_6 fig) :: ('e, 'v, 'w, unit) py"
  have n: "Suc (execution_count k) = 5" using assms by simp
  from cell_5_runs [OF n, of fig x lib] obtain ax r6 r7 new1 where
    t1: "trace (snd (?m lib k)) = trace k @ new1"
    and c1: "execution_count (snd (?m lib k)) = 5"
    and a1: "\<forall>a. fst (?m lib k) = Inr a \<longrightarrow> a = ax"
    and r1: "runs_as (fst (?m lib k)) new1
       [(5, CallMethod fig ''add_subplot'' [IntLit 111], Inr ax),
        (5, CallMethod ax ''hist'' [Ref x, IntLit 100], Inr r6),
        (5, CallMethod ax ''set_title'' [StrLit title], Inr r7)]"
    by blast
  from runs_from_6 [OF c1, of fig lib canvas x ax] obtain r' new2 where
    t2: "trace (snd (run_cell (cell_6 fig) lib (snd (?m lib k)))) =
           trace (snd (?m lib k)) @ new2"
    and r2: "runs_as (fst (run_cell (cell_6 fig) lib (snd (?m lib k)))) new2
           (drop 12 (record_of fig canvas x ax r'))"
    by blast
  define r where "r = r'(6 := r6, 7 := r7)"
  let ?T = "drop 9 (record_of fig canvas x ax r :: (nat \<times> 'v event \<times> ('e + 'v)) list)"
  have split: "?T =
       [(5, CallMethod fig ''add_subplot'' [IntLit 111], Inr ax),
        (5, CallMethod ax ''hist'' [Ref x, IntLit 100], Inr r6),
        (5, CallMethod ax ''set_title'' [StrLit title], Inr r7)] @
       drop 12 (record_of fig canvas x ax r')"
    by (simp add: record_of_def r_def)
  show ?thesis
  proof (cases "fst (?m lib k)")
    case (Inl e)
    have "py_bind ?m ?f lib k = (Inl e, snd (?m lib k))"
      using Inl by (rule py_bind_raised)
    moreover have "runs_as (Inl e :: 'e + unit) new1 ?T"
      unfolding split using r1 [unfolded Inl] by (rule runs_as_extend)
    ultimately have "trace (snd (py_bind ?m ?f lib k)) = trace k @ new1"
      and "runs_as (fst (py_bind ?m ?f lib k)) new1 ?T"
      using t1 by simp_all
    then show ?thesis by blast
  next
    case (Inr a)
    have run: "py_bind ?m ?f lib k = run_cell (cell_6 fig) lib (snd (?m lib k))"
      using Inr by (rule py_bind_returned)
    from r1 Inr have n1: "new1 =
       [(5, CallMethod fig ''add_subplot'' [IntLit 111], Inr ax),
        (5, CallMethod ax ''hist'' [Ref x, IntLit 100], Inr r6),
        (5, CallMethod ax ''set_title'' [StrLit title], Inr r7)]"
      by simp
    have "runs_as (fst (run_cell (cell_6 fig) lib (snd (?m lib k)))) (new1 @ new2) ?T"
      unfolding split n1 using r2 by (rule runs_as_prepend)
    then have "trace (snd (py_bind ?m ?f lib k)) = trace k @ (new1 @ new2)"
      and "runs_as (fst (py_bind ?m ?f lib k)) (new1 @ new2) ?T"
      unfolding run using t1 t2 by simp_all
    then show ?thesis by blast
  qed
qed

lemma runs_from_4:
  fixes lib :: "('e, 'v, 'w) library"
  assumes "execution_count k = 3"
  shows "\<exists>x ax r new.
     trace (snd (py_bind (run_cell cell_4) (\<lambda>x.
        py_bind (run_cell (cell_5 fig x)) (\<lambda>ax. run_cell (cell_6 fig))) lib k)) =
       trace k @ new \<and>
     runs_as (fst (py_bind (run_cell cell_4) (\<lambda>x.
        py_bind (run_cell (cell_5 fig x)) (\<lambda>ax. run_cell (cell_6 fig))) lib k)) new
       (drop 8 (record_of fig canvas x ax r))"
proof -
  let ?k = "k\<lparr>execution_count := Suc (execution_count k)\<rparr>"
  let ?m = "run_cell cell_4 :: ('e, 'v, 'w, 'v) py"
  let ?f = "\<lambda>x :: 'v. py_bind (run_cell (cell_5 fig x))
      (\<lambda>ax. run_cell (cell_6 fig)) :: ('e, 'v, 'w, unit) py"
  have n: "Suc (execution_count k) = 4" using assms by simp
  from cell_4_runs [OF n, of lib] obtain x new1 where
    t1: "trace (snd (?m lib k)) = trace k @ new1"
    and c1: "execution_count (snd (?m lib k)) = 4"
    and a1: "\<forall>a. fst (?m lib k) = Inr a \<longrightarrow> a = x"
    and r1: "runs_as (fst (?m lib k)) new1
       [(4, CallFn ''np.random.randn'' [IntLit 10000], Inr x)]"
    by blast
  from runs_from_5 [OF c1, of fig x lib canvas] obtain ax r new2 where
    t2: "trace (snd (?f x lib (snd (?m lib k)))) = trace (snd (?m lib k)) @ new2"
    and r2: "runs_as (fst (?f x lib (snd (?m lib k)))) new2
           (drop 9 (record_of fig canvas x ax r))"
    by blast
  let ?T = "drop 8 (record_of fig canvas x ax r :: (nat \<times> 'v event \<times> ('e + 'v)) list)"
  have split: "?T =
       [(4, CallFn ''np.random.randn'' [IntLit 10000], Inr x)] @
       drop 9 (record_of fig canvas x ax r)"
    by (simp add: record_of_def)
  show ?thesis
  proof (cases "fst (?m lib k)")
    case (Inl e)
    have "py_bind ?m ?f lib k = (Inl e, snd (?m lib k))"
      using Inl by (rule py_bind_raised)
    moreover have "runs_as (Inl e :: 'e + unit) new1 ?T"
      unfolding split using r1 [unfolded Inl] by (rule runs_as_extend)
    ultimately have "trace (snd (py_bind ?m ?f lib k)) = trace k @ new1"
      and "runs_as (fst (py_bind ?m ?f lib k)) new1 ?T"
      using t1 by simp_all
    then show ?thesis by blast
  next
    case (Inr a)
    with a1 have "fst (?m lib k) = Inr x" by simp
    then have run: "py_bind ?m ?f lib k = ?f x lib (snd (?m lib k))"
      by (rule py_bind_returned)
    from r1 Inr have n1: "new1 = [(4, CallFn ''np.random.randn'' [IntLit 10000], Inr x)]"
      by simp
    have "runs_as (fst (?f x lib (snd (?m lib k)))) (new1 @ new2) ?T"
      unfolding split n1 using r2 by (rule runs_as_prepend)
    then have "trace (snd (py_bind ?m ?f lib k)) = trace k @ (new1 @ new2)"
      and "runs_as (fst (py_bind ?m ?f lib k)) (new1 @ new2) ?T"
      unfolding run using t1 t2 by simp_all
    then show ?thesis by blast
  qed
qed

lemma runs_from_3:
  fixes lib :: "('e, 'v, 'w) library"
  assumes "execution_count k = 2"
  shows "\<exists>fig canvas x ax r new.
     trace (snd (py_bind (run_cell cell_3) (\<lambda>(fig, canvas).
        py_bind (run_cell cell_4) (\<lambda>x.
        py_bind (run_cell (cell_5 fig x)) (\<lambda>ax. run_cell (cell_6 fig)))) lib k)) =
       trace k @ new \<and>
     runs_as (fst (py_bind (run_cell cell_3) (\<lambda>(fig, canvas).
        py_bind (run_cell cell_4) (\<lambda>x.
        py_bind (run_cell (cell_5 fig x)) (\<lambda>ax. run_cell (cell_6 fig)))) lib k)) new
       (drop 6 (record_of fig canvas x ax r))"
proof -
  let ?k = "k\<lparr>execution_count := Suc (execution_count k)\<rparr>"
  let ?m = "run_cell cell_3 :: ('e, 'v, 'w, 'v \<times> 'v) py"
  let ?g = "\<lambda>fig :: 'v. py_bind (run_cell cell_4) (\<lambda>x.
        py_bind (run_cell (cell_5 fig x)) (\<lambda>ax. run_cell (cell_6 fig))) :: ('e, 'v, 'w, unit) py"
  let ?f = "\<lambda>(fig :: 'v, canvas :: 'v). ?g fig"
  have n: "Suc (execution_count k) = 3" using assms by simp
  from cell_3_runs [OF n, of lib] obtain fig canvas new1 where
    t1: "trace (snd (?m lib k)) = trace k @ new1"
    and c1: "execution_count (snd (?m lib k)) = 3"
    and a1: "\<forall>a. fst (?m lib k) = Inr a \<longrightarrow> a = (fig, canvas)"
    and r1: "runs_as (fst (?m lib k)) new1
       [(3, CallFn ''Figure'' [], Inr fig),
        (3, CallFn ''FigureCanvasAgg'' [Ref fig], Inr canvas)]"
    by blast
  from runs_from_4 [OF c1, of fig lib canvas] obtain x ax r new2 where
    t2: "trace (snd (?g fig lib (snd (?m lib k)))) = trace (snd (?m lib k)) @ new2"
    and r2: "runs_as (fst (?g fig lib (snd (?m lib k)))) new2
           (drop 8 (record_of fig canvas x ax r))"
    by blast
  let ?T = "drop 6 (record_of fig canvas x ax r :: (nat \<times> 'v event \<times> ('e + 'v)) list)"
  have split: "?T =
       [(3, CallFn ''Figure'' [], Inr fig),
        (3, CallFn ''FigureCanvasAgg'' [Ref fig], Inr canvas)] @
       drop 8 (record_of fig canvas x ax r)"
    by (simp add: record_of_def)
  show ?thesis
  proof (cases "fst (?m lib k)")
    case (Inl e)
    have "py_bind ?m ?f lib k = (Inl e, snd (?m lib k))"
      using Inl by (rule py_bind_raised)
    moreover have "runs_as (Inl e :: 'e + unit) new1 ?T"
      unfolding split using r1 [unfolded Inl] by (rule runs_as_extend)
    ultimately have "trace (snd (py_bind ?m ?f lib k)) = trace k @ new1"
      and "runs_as (fst (py_bind ?m ?f lib k)) new1 ?T"
      using t1 by simp_all
    then show ?thesis by blast
  next
    case (Inr a)
    with a1 have "fst (?m lib k) = Inr (fig, canvas)" by simp
    then have "py_bind ?m ?f lib k = ?f (fig, canvas) lib (snd (?m lib k))"
      by (rule py_bind_returned)
    then have run: "py_bind ?m ?f lib k = ?g fig lib (snd (?m lib k))" by simp
    from r1 Inr have n1: "new1 =
       [(3, CallFn ''Figure'' [], Inr fig),
        (3, CallFn ''FigureCanvasAgg'' [Ref fig], Inr canvas)]"
      by simp
    have "runs_as (fst (?g fig lib (snd (?m lib k)))) (new1 @ new2) ?T"
      unfolding split n1 using r2 by (rule runs_as_prepend)
    then have "trace (snd (py_bind ?m ?f lib k)) = trace k @ (new1 @ new2)"
      and "runs_as (fst (py_bind ?m ?f lib k)) (new1 @ new2) ?T"
      unfolding run using t1 t2 by simp_all
    then show ?thesis by blast
  qed
qed

lemma runs_from_2:
  fixes lib :: "('e, 'v, 'w) library"
  assumes "execution_count k = 1"
  shows "\<exists>fig canvas x ax r new.
     trace (snd (py_bind (run_cell cell_2) (\<lambda>_.
        py_bind (run_cell cell_3) (\<lambda>(fig, canvas).
        py_bind (run_cell cell_4) (\<lambda>x.
        py_bind (run_cell (cell_5 fig x)) (\<lambda>ax. run_cell (cell_6 fig))))) lib k)) =
       trace k @ new \<and>
     runs_as (fst (py_bind (run_cell cell_2) (\<lambda>_.
        py_bind (run_cell cell_3) (\<lambda>(fig, canvas).
        py_bind (run_cell cell_4) (\<lambda>x.
        py_bind (run_cell (cell_5 fig x)) (\<lambda>ax. run_cell (cell_6 fig))))) lib k)) new
       (drop 4 (record_of fig canvas x ax r))"
proof -
  let ?k = "k\<lparr>execution_count := Suc (execution_count k)\<rparr>"
  let ?m = "run_cell cell_2 :: ('e, 'v, 'w, unit) py"
  let ?g = "py_bind (run_cell cell_3) (\<lambda>(fig, canvas).
        py_bind (run_cell cell_4) (\<lambda>x.
        py_bind (run_cell (cell_5 fig x)) (\<lambda>ax. run_cell (cell_6 fig)))) :: ('e, 'v, 'w, unit) py"
  let ?f = "\<lambda>_ :: unit. ?g"
  have n: "Suc (execution_count k) = 2" using assms by simp
  from cell_2_runs [OF n, of lib] obtain r4 r5 new1 where
    t1: "trace (snd (?m lib k)) = trace k @ new1"
    and c1: "execution_count (snd (?m lib k)) = 2"
    and r1: "runs_as (fst (?m lib k)) new1
       [(2, FromImport ''matplotlib.backends.backend_agg'' ''FigureCanvasAgg'', Inr r4),
        (2, FromImport ''matplotlib.figure'' ''Figure'', Inr r5)]"
    by blast
  from runs_from_3 [OF c1, of lib] obtain fig canvas x ax r' new2 where
    t2: "trace (snd (?g lib (snd (?m lib k)))) = trace (snd (?m lib k)) @ new2"
    and r2: "runs_as (fst (?g lib (snd (?m lib k)))) new2
           (drop 6 (record_of fig canvas x ax r'))"
    by blast
  define r where "r = r'(4 := r4, 5 := r5)"
  let ?T = "drop 4 (record_of fig canvas x ax r :: (nat \<times> 'v event \<times> ('e + 'v)) list)"
  have split: "?T =
       [(2, FromImport ''matplotlib.backends.backend_agg'' ''FigureCanvasAgg'', Inr r4),
        (2, FromImport ''matplotlib.figure'' ''Figure'', Inr r5)] @
       drop 6 (record_of fig canvas x ax r')"
    by (simp add: record_of_def r_def)
  show ?thesis
  proof (cases "fst (?m lib k)")
    case (Inl e)
    have "py_bind ?m ?f lib k = (Inl e, snd (?m lib k))"
      using Inl by (rule py_bind_raised)
    moreover have "runs_as (Inl e :: 'e + unit) new1 ?T"
      unfolding split using r1 [unfolded Inl] by (rule runs_as_extend)
    ultimately have "trace (snd (py_bind ?m ?f lib k)) = trace k @ new1"
      and "runs_as (fst (py_bind ?m ?f lib k)) new1 ?T"
      using t1 by simp_all
    then show ?thesis by blast
  next
    case (Inr a)
    have run: "py_bind ?m ?f lib k = ?g lib (snd (?m lib k))"
      using Inr by (rule py_bind_returned)
    from r1 Inr have n1: "new1 =
       [(2, FromImport ''matplotlib.backends.backend_agg'' ''FigureCanvasAgg'', Inr r4),
        (2, FromImport ''matplotlib.figure'' ''Figure'', Inr r5)]"
      by simp
    have "runs_as (fst (?g lib (snd (?m lib k)))) (new1 @ new2) ?T"
      unfolding split n1 using r2 by (rule runs_as_prepend)
    then have "trace (snd (py_bind ?m ?f lib k)) = trace k @ (new1 @ new2)"
      and "runs_as (fst (py_bind ?m ?f lib k)) (new1 @ new2) ?T"
      unfolding run using t1 t2 by simp_all
    then show ?thesis by blast
  qed
qed

lemma runs_from_1:
  fixes lib :: "('e, 'v, 'w) library"
  assumes "execution_count k = 0"
  shows "\<exists>fig canvas x ax r new.
     trace (snd (notebook lib k)) = trace k @ new \<and>
     runs_as (fst (notebook lib k)) new (record_of fig canvas x ax r)"
proof -
  let ?k = "k\<lparr>execution_count := Suc (execution_count k)\<rparr>"
  let ?m = "run_cell cell_1 :: ('e, 'v, 'w, unit) py"
  let ?g = "py_bind (run_cell cell_2) (\<lambda>_.
        py_bind (run_cell cell_3) (\<lambda>(fig, canvas).
        py_bind (run_cell cell_4) (\<lambda>x.
        py_bind (run_cell (cell_5 fig x)) (\<lambda>ax. run_cell (cell_6 fig))))) :: ('e, 'v, 'w, unit) py"
  let ?f = "\<lambda>_ :: unit. ?g"
  have nb: "notebook = py_bind ?m ?f"
    by (simp add: notebook_def)
  have n: "Suc (execution_count k) = 1" using assms by simp
  from cell_1_runs [OF n, of lib] obtain r0 r1 r2 r3 new1 where
    t1: "trace (snd (?m lib k)) = trace k @ new1"
    and c1: "execution_count (snd (?m lib k)) = 1"
    and r1: "runs_as (fst (?m lib k)) new1
       [(1, LineMagic ''matplotlib'' ''inline'', Inr r0),
        (1, ImportAs ''numpy'' ''np'', Inr r1),
        (1, FromImport ''IPython.display'' ''set_matplotlib_formats'', Inr r2),
        (1, CallFn ''set_matplotlib_formats'' [StrLit ''retina''], Inr r3)]"
    by blast
  from runs_from_2 [OF c1, of lib] obtain fig canvas x ax r' new2 where
    t2: "trace (snd (?g lib (snd (?m lib k)))) = trace (snd (?m lib k)) @ new2"
    and r2: "runs_as (fst (?g lib (snd (?m lib k)))) new2
           (drop 4 (record_of fig canvas x ax r'))"
    by blast
  define r where "r = r'(0 := r0, 1 := r1, 2 := r2, 3 := r3)"
  let ?T = "record_of fig canvas x ax r :: (nat \<times> 'v event \<times> ('e + 'v)) list"
  have split: "?T =
       [(1, LineMagic ''matplotlib'' ''inline'', Inr r0),
        (1, ImportAs ''numpy'' ''np'', Inr r1),
        (1, FromImport ''IPython.display'' ''set_matplotlib_formats'', Inr r2),
        (1, CallFn ''set_matplotlib_formats'' [StrLit ''retina''], Inr r3)] @
       drop 4 (record_of fig canvas x ax r')"
    by (simp add: record_of_def r_def)
  show ?thesis
  proof (cases "fst (?m lib k)")
    case (Inl e)
    have "py_bind ?m ?f lib k = (Inl e, snd (?m lib k))"
      using Inl by (rule py_bind_raised)
    moreover have "runs_as (Inl e :: 'e + unit) new1 ?T"
      unfolding split using r1 [unfolded Inl] by (rule runs_as_extend)
    ultimately have "trace (snd (py_bind ?m ?f lib k)) = trace k @ new1"
      and "runs_as (fst (py_bind ?m ?f lib k)) new1 ?T"
      using t1 by simp_all
    then show ?thesis unfolding nb by blast
  next
    case (Inr a)
    have run: "py_bind ?m ?f lib k = ?g lib (snd (?m lib k))"
      using Inr by (rule py_bind_returned)
    from r1 Inr have n1: "new1 =
       [(1, LineMagic ''matplotlib'' ''inline'', Inr r0),
        (1, ImportAs ''numpy'' ''np'', Inr r1),
        (1, FromImport ''IPython.display'' ''set_matplotlib_formats'', Inr r2),
        (1, CallFn ''set_matplotlib_formats'' [StrLit ''retina''], Inr r3)]"
      by simp
    have "runs_as (fst (?g lib (snd (?m lib k)))) (new1 @ new2) ?T"
      unfolding split n1 using r2 by (rule runs_as_prepend)
    then have "trace (snd (py_bind ?m ?f lib k)) = trace k @ (new1 @ new2)"
      and "runs_as (fst (py_bind ?m ?f lib k)) (new1 @ new2) ?T"
      unfolding run using t1 t2 by simp_all
    then show ?thesis unfolding nb by blast
  qed
qed

lemma run_all_runs:
  "\<exists>fig canvas x ax r. runs_as (outcome lib w) (requests lib w) (record_of fig canvas x ax r)"
  using runs_from_1 [of "fresh_kernel w" lib]
  by (auto simp: outcome_def requests_def run_all_def fresh_kernel_def)

subsection \<open>The source text and the embedding\<close>

lemma notebook_source_straight_line: "straight_line notebook_source"
  by (simp add: straight_line_def notebook_source_def source_1_def source_2_def source_3_def
      source_4_def source_5_def source_6_def)

lemma exec_cell_1:
  "exec_block source_1 Map.empty lib k =
     Some (case cell_1 lib k of
             (Inl e, k') \<Rightarrow> (Inl e, k')
           | (Inr u, k') \<Rightarrow> (Inr Map.empty, k'))"
  by (simp add: source_1_def cell_1_def py_bind_def py_return_def
      split: prod.splits sum.splits)

lemma exec_cell_2:
  "exec_block source_2 Map.empty lib k =
     Some (case cell_2 lib k of
             (Inl e, k') \<Rightarrow> (Inl e, k')
           | (Inr u, k') \<Rightarrow> (Inr Map.empty, k'))"
  by (simp add: source_2_def cell_2_def py_bind_def py_return_def
      split: prod.splits sum.splits)

lemma exec_cell_3:
  "exec_block source_3 Map.empty lib k =
     Some (case cell_3 lib k of
             (Inl e, k') \<Rightarrow> (Inl e, k')
           | (Inr (fig, canvas), k') \<Rightarrow> (Inr [''fig'' \<mapsto> fig, ''canvas'' \<mapsto> canvas], k'))"
  by (simp add: source_3_def cell_3_def py_bind_def py_return_def
      split: prod.splits sum.splits)

lemma exec_cell_4:
  "exec_block source_4 [''fig'' \<mapsto> fig, ''canvas'' \<mapsto> canvas] lib k =
     Some (case cell_4 lib k of
             (Inl e, k') \<Rightarrow> (Inl e, k')
           | (Inr x, k') \<Rightarrow> (Inr [''fig'' \<mapsto> fig, ''canvas'' \<mapsto> canvas, ''x'' \<mapsto> x], k'))"
  by (simp add: source_4_def cell_4_def py_bind_def py_return_def
      split: prod.splits sum.splits)

lemma exec_cell_5:
  "exec_block source_5 [''fig'' \<mapsto> fig, ''canvas'' \<mapsto> canvas, ''x'' \<mapsto> x] lib k =
     Some (case cell_5 fig x lib k of
             (Inl e, k') \<Rightarrow> (Inl e, k')
           | (Inr ax, k') \<Rightarrow>
               (Inr [''fig'' \<mapsto> fig, ''canvas'' \<mapsto> canvas, ''x'' \<mapsto> x, ''ax'' \<mapsto> ax], k'))"
  by (simp add: source_5_def cell_5_def py_bind_def py_return_def
      split: prod.splits sum.splits)

lemma exec_cell_6:
  "exec_block source_6
       [''fig'' \<mapsto> fig, ''canvas'' \<mapsto> canvas, ''x'' \<mapsto> x, ''ax'' \<mapsto> ax] lib k =
     Some (case cell_6 fig lib k of
             (Inl e, k') \<Rightarrow> (Inl e, k')
           | (Inr u, k') \<Rightarrow>
               (Inr [''fig'' \<mapsto> fig, ''canvas'' \<mapsto> canvas, ''x'' \<mapsto> x, ''ax'' \<mapsto> ax], k'))"
  by (simp add: source_6_def cell_6_def py_bind_def py_return_def
      split: prod.splits sum.splits)

lemma exec_from_6:
  "forget (exec_cells [source_6]
       [''fig'' \<mapsto> fig, ''canvas'' \<mapsto> canvas, ''x'' \<mapsto> x, ''ax'' \<mapsto> ax] lib k) =
   Some (run_cell (cell_6 fig) lib k)"
  by (simp add: forget_def exec_cell_6 run_cell_def split: prod.splits sum.splits)

lemma exec_from_5:
  "forget (exec_cells [source_5, source_6]
       [''fig'' \<mapsto> fig, ''canvas'' \<mapsto> canvas, ''x'' \<mapsto> x] lib k) =
   Some (py_bind (run_cell (cell_5 fig x)) (\<lambda>ax. run_cell (cell_6 fig)) lib k)"
proof (cases "cell_5 fig x lib (k\<lparr>execution_count := Suc (execution_count k)\<rparr>)")
  case (Pair res k')
  show ?thesis
  proof (cases res)
    case (Inl e)
    with Pair show ?thesis
      by (simp add: exec_cell_5 py_bind_def run_cell_def forget_def)
  next
    case (Inr ax)
    with Pair exec_from_6 [of fig canvas x ax lib k'] show ?thesis
      by (simp add: exec_cell_5 py_bind_def run_cell_def)
  qed
qed

lemma exec_from_4:
  "forget (exec_cells [source_4, source_5, source_6]
       [''fig'' \<mapsto> fig, ''canvas'' \<mapsto> canvas] lib k) =
   Some (py_bind (run_cell cell_4) (\<lambda>x.
         py_bind (run_cell (cell_5 fig x)) (\<lambda>ax. run_cell (cell_6 fig))) lib k)"
proof (cases "cell_4 lib (k\<lparr>execution_count := Suc (execution_count k)\<rparr>)")
  case (Pair res k')
  show ?thesis
  proof (cases res)
    case (Inl e)
    with Pair show ?thesis
      by (simp add: exec_cell_4 py_bind_def run_cell_def forget_def)
  next
    case (Inr x)
    with Pair exec_from_5 [of fig canvas x lib k'] show ?thesis
      by (simp add: exec_cell_4 py_bind_def [of "run_cell cell_4"] run_cell_def [of cell_4])
  qed
qed

lemma exec_from_3:
  "forget (exec_cells [source_3, source_4, source_5, source_6] Map.empty lib k) =
   Some (py_bind (run_cell cell_3) (\<lambda>(fig, canvas).
         py_bind (run_cell cell_4) (\<lambda>x.
         py_bind (run_cell (cell_5 fig x)) (\<lambda>ax. run_cell (cell_6 fig)))) lib k)"
proof (cases "cell_3 lib (k\<lparr>execution_count := Suc (execution_count k)\<rparr>)")
  case (Pair res k')
  show ?thesis
  proof (cases res)
    case (Inl e)
    with Pair show ?thesis
      by (simp add: exec_cell_3 py_bind_def run_cell_def forget_def)
  next
    case (Inr p)
    obtain fig canvas where p: "p = (fig, canvas)" by (cases p)
    with Inr Pair exec_from_4 [of fig canvas lib k'] show ?thesis
      by (simp add: exec_cell_3 py_bind_def [of "run_cell cell_3"] run_cell_def [of cell_3])
  qed
qed

lemma exec_from_2:
  "forget (exec_cells [source_2, source_3, source_4, source_5, source_6] Map.empty lib k) =
   Some (py_bind (run_cell cell_2) (\<lambda>_.
         py_bind (run_cell cell_3) (\<lambda>(fig, canvas).
         py_bind (run_cell cell_4) (\<lambda>x.
         py_bind (run_cell (cell_5 fig x)) (\<lambda>ax. run_cell (cell_6 fig))))) lib k)"
proof (cases "cell_2 lib (k\<lparr>execution_count := Suc (execution_count k)\<rparr>)")
  case (Pair res k')
  show ?thesis
  proof (cases res)
    case (Inl e)
    with Pair show ?thesis
      by (simp add: exec_cell_2 py_bind_def run_cell_def forget_def)
  next
    case (Inr u)
    with Pair exec_from_3 [of lib k'] show ?thesis
      by (simp add: exec_cell_2 py_bind_def [of "run_cell cell_2"] run_cell_def [of cell_2])
  qed
qed

lemma exec_from_1:
  "forget (exec_cells [source_1, source_2, source_3, source_4, source_5, source_6]
       Map.empty lib k) =
   Some (notebook lib k)"
proof (cases "cell_1 lib (k\<lparr>execution_count := Suc (execution_count k)\<rparr>)")
  case (Pair res k')
  show ?thesis
  proof (cases res)
    case (Inl e)
    with Pair show ?thesis
      by (simp add: exec_cell_1 notebook_def py_bind_def run_cell_def forget_def)
  next
    case (Inr u)
    with Pair exec_from_2 [of lib k'] show ?thesis
      by (simp add: exec_cell_1 notebook_def py_bind_def [of "run_cell cell_1"]
          run_cell_def [of cell_1])
  qed
qed

lemma exec_notebook_source:
  "exec_notebook notebook_source lib w = Some (run_all lib w)"
  unfolding exec_notebook_def notebook_source_def run_all_def by (rule exec_from_1)

subsection \<open>The steps of the notebook\<close>

text \<open>
  Claim C1, as amended. When the code cells are executed top to bottom and no request
  raises, the program makes exactly the following requests, in this order and no others:
  in cell 1 the magic \<open>%matplotlib inline\<close>, \<open>import numpy as np\<close>, the import of
  \<open>set_matplotlib_formats\<close> and the call \<open>set_matplotlib_formats('retina')\<close>; in cell 2
  the imports of \<open>FigureCanvasAgg\<close> and \<open>Figure\<close>; in cell 3 \<open>Figure()\<close> and
  \<open>FigureCanvasAgg(fig)\<close> on the Figure just made; in cell 4 \<open>np.random.randn(10000)\<close>;
  in cell 5 \<open>fig.add_subplot(111)\<close>, \<open>ax.hist(x, 100)\<close> on the Axes returned and the
  sample of cell 4, and \<open>ax.set_title\<close>; in cell 6 the import of \<open>display_png\<close> and
  \<open>display_png(fig)\<close>.
\<close>

theorem notebook_steps_in_order:
  assumes "outcome lib w = Inr ()"
  shows "\<exists>r1 r2 r3 r4 r5 r6 fig canvas x ax r11 r12 r13 r14.
     requests lib w =
       [(1, LineMagic ''matplotlib'' ''inline'', Inr r1),
        (1, ImportAs ''numpy'' ''np'', Inr r2),
        (1, FromImport ''IPython.display'' ''set_matplotlib_formats'', Inr r3),
        (1, CallFn ''set_matplotlib_formats'' [StrLit ''retina''], Inr r4),
        (2, FromImport ''matplotlib.backends.backend_agg'' ''FigureCanvasAgg'', Inr r5),
        (2, FromImport ''matplotlib.figure'' ''Figure'', Inr r6),
        (3, CallFn ''Figure'' [], Inr fig),
        (3, CallFn ''FigureCanvasAgg'' [Ref fig], Inr canvas),
        (4, CallFn ''np.random.randn'' [IntLit 10000], Inr x),
        (5, CallMethod fig ''add_subplot'' [IntLit 111], Inr ax),
        (5, CallMethod ax ''hist'' [Ref x, IntLit 100], Inr r11),
        (5, CallMethod ax ''set_title'' [StrLit title], Inr r12),
        (6, FromImport ''IPython.display'' ''display_png'', Inr r13),
        (6, CallFn ''display_png'' [Ref fig], Inr r14)]"
  using run_all_success [OF assms] unfolding record_of_def by blast

text \<open>The theorem on the stand-in library, with all four modules installed.\<close>

theorem notebook_steps_in_order_witness:
  "outcome stub_library (stub_world 7) = Inr () \<and>
   (\<exists>r1 r2 r3 r4 r5 r6 fig canvas x ax r11 r12 r13 r14.
     requests stub_library (stub_world 7) =
       [(1, LineMagic ''matplotlib'' ''inline'', Inr r1),
        (1, ImportAs ''numpy'' ''np'', Inr r2),
        (1, FromImport ''IPython.display'' ''set_matplotlib_formats'', Inr r3),
        (1, CallFn ''set_matplotlib_formats'' [StrLit ''retina''], Inr r4),
        (2, FromImport ''matplotlib.backends.backend_agg'' ''FigureCanvasAgg'', Inr r5),
        (2, FromImport ''matplotlib.figure'' ''Figure'', Inr r6),
        (3, CallFn ''Figure'' [], Inr fig),
        (3, CallFn ''FigureCanvasAgg'' [Ref fig], Inr canvas),
        (4, CallFn ''np.random.randn'' [IntLit 10000], Inr x),
        (5, CallMethod fig ''add_subplot'' [IntLit 111], Inr ax),
        (5, CallMethod ax ''hist'' [Ref x, IntLit 100], Inr r11),
        (5, CallMethod ax ''set_title'' [StrLit title], Inr r12),
        (6, FromImport ''IPython.display'' ''display_png'', Inr r13),
        (6, CallFn ''display_png'' [Ref fig], Inr r14)])"
proof -
  have h: "outcome stub_library (stub_world 7) = Inr ()" by (rule stub_run_succeeds)
  from h notebook_steps_in_order [OF h] show ?thesis by (rule conjI)
qed

text \<open>
  Claim C1 as the specification states it lists seven steps and says that there are no
  others. On the stand-in library the run makes fourteen requests; the call
  \<open>set_matplotlib_formats('retina')\<close> of the first cell is one of them and is not among
  the listed steps.
\<close>

theorem listed_steps_counterexample:
  "outcome stub_library (stub_world 7) = Inr () \<and>
   events_of (requests stub_library (stub_world 7)) \<noteq>
     listed_steps (Obj 0) (Sample 7 10000) (Obj 2) \<and>
   CallFn ''set_matplotlib_formats'' [StrLit ''retina'']
     \<in> set (events_of (requests stub_library (stub_world 7))) \<and>
   CallFn ''set_matplotlib_formats'' [StrLit ''retina'']
     \<notin> set (listed_steps (Obj 0) (Sample 7 10000) (Obj 2))"
  by (simp add: stub_run_succeeds stub_requests events_of_def listed_steps_def)

subsection \<open>Exceptions\<close>

text \<open>
  Claim C4. The record of a run is truthful: every entry holds what the library answered.
  The exceptions that the library raised during the run are exactly the outcome of the run:
  none when the run completes, and otherwise the single exception with which the run ends.
  That exception is the value the library gave for the last request made, unchanged, and
  no request follows it. The statement holds for every type of exceptions, so the program
  neither inspects nor builds one.
\<close>

theorem exception_reaches_kernel_unmodified:
  "truthful lib w (requests lib w) \<and>
   exceptions (requests lib w) = (case outcome lib w of Inl e \<Rightarrow> [e] | Inr u \<Rightarrow> []) \<and>
   (\<forall>e. outcome lib w = Inl e \<longrightarrow>
      (\<exists>pre c ev. requests lib w = pre @ [(c, ev, Inl e)] \<and>
         fst (lib ev (replay lib w (events_of pre))) = Inl e))"
proof -
  note rec = run_all_record [of lib w]
  from rec have t: "truthful lib w (requests lib w)" by simp
  from rec have v: "verdict (outcome lib w) (requests lib w) call_sequence" by simp
  have ex: "exceptions (requests lib w) = (case outcome lib w of Inl e \<Rightarrow> [e] | Inr u \<Rightarrow> [])"
  proof (cases "outcome lib w")
    case (Inr u)
    with v show ?thesis by simp
  next
    case (Inl e)
    with v obtain pre c ev where "requests lib w = pre @ [(c, ev, Inl e)]"
      and "exceptions pre = []" by auto
    then show ?thesis using Inl by (simp add: exceptions_def)
  qed
  have last: "\<exists>pre c ev. requests lib w = pre @ [(c, ev, Inl e)] \<and>
         fst (lib ev (replay lib w (events_of pre))) = Inl e"
    if "outcome lib w = Inl e" for e
  proof -
    from v that obtain pre c ev where r: "requests lib w = pre @ [(c, ev, Inl e)]"
      by auto
    from t have "fst (lib ev (replay lib w (events_of pre))) = Inl e"
      unfolding r by simp
    with r show ?thesis by blast
  qed
  from t ex last show ?thesis by blast
qed

text \<open>On the stand-in library without matplotlib, the import in cell 2 raises.\<close>

theorem exception_reaches_kernel_unmodified_witness:
  "outcome stub_library (bare_world 7) = Inl (ImportError ''matplotlib.backends.backend_agg'') \<and>
   exceptions (requests stub_library (bare_world 7)) =
     [ImportError ''matplotlib.backends.backend_agg''] \<and>
   (\<exists>pre c ev. requests stub_library (bare_world 7) =
        pre @ [(c, ev, Inl (ImportError ''matplotlib.backends.backend_agg''))] \<and>
      fst (stub_library ev (replay stub_library (bare_world 7) (events_of pre))) =
        Inl (ImportError ''matplotlib.backends.backend_agg''))"
proof -
  have h: "outcome stub_library (bare_world 7) =
      Inl (ImportError ''matplotlib.backends.backend_agg'')"
    by (rule bare_run_raises)
  from exception_reaches_kernel_unmodified [of stub_library "bare_world 7"] h
  show ?thesis by simp
qed

subsection \<open>Control flow\<close>

text \<open>
  Claim C5. Every statement of the six cells is a direct invocation: a line magic, an
  import, or one call of a name or dotted name on names and literals, assigned to a
  variable or not. The source holds no conditional, no loop, no \<open>try\<close>, no \<open>assert\<close> or
  \<open>raise\<close>, no function or class definition and no list or dictionary display. Read as
  requests to the library, statement by statement, the source is the embedding: for every
  library and world it gives the result and the kernel of \<open>run_all\<close>. Every run is
  therefore one and the same sequence of fourteen requests, in which the answers of the
  library occur only as the arguments and receivers that the source gives them, complete
  when no request raises and stopped at the first request that raises otherwise: no
  request is chosen by a value, repeated or retried. Each recorded answer is the
  library's, and the final world is the one the library has made of the requests.
\<close>

theorem notebook_is_straight_line:
  "straight_line notebook_source \<and>
   exec_notebook notebook_source lib w = Some (run_all lib w) \<and>
   (\<exists>fig canvas x ax r.
      runs_as (outcome lib w) (requests lib w) (record_of fig canvas x ax r)) \<and>
   truthful lib w (requests lib w) \<and>
   final_world lib w = replay lib w (events_of (requests lib w))"
proof -
  have "truthful lib w (requests lib w)"
    and "final_world lib w = replay lib w (events_of (requests lib w))"
    using run_all_record [of lib w] by simp_all
  then show ?thesis
    using notebook_source_straight_line exec_notebook_source [of lib w] run_all_runs [of lib w]
    by blast
qed

text \<open>
  On the stand-in library: a run that completes, and the run without matplotlib, which is
  the same sequence stopped at its fifth request.
\<close>

theorem notebook_is_straight_line_witness:
  "exec_notebook notebook_source stub_library (stub_world 7) =
     Some (run_all stub_library (stub_world 7)) \<and>
   outcome stub_library (stub_world 7) = Inr () \<and>
   (\<exists>fig canvas x ax r.
      requests stub_library (stub_world 7) = record_of fig canvas x ax r) \<and>
   outcome stub_library (bare_world 7) = Inl (ImportError ''matplotlib.backends.backend_agg'') \<and>
   (\<exists>fig canvas x ax r.
      stopped (ImportError ''matplotlib.backends.backend_agg'')
        (requests stub_library (bare_world 7)) (record_of fig canvas x ax r)) \<and>
   length (requests stub_library (bare_world 7)) = 5"
proof -
  have ok: "outcome stub_library (stub_world 7) = Inr ()" by (rule stub_run_succeeds)
  have bad: "outcome stub_library (bare_world 7) =
      Inl (ImportError ''matplotlib.backends.backend_agg'')"
    by (rule bare_run_raises)
  from notebook_is_straight_line [of stub_library "stub_world 7"]
  have "exec_notebook notebook_source stub_library (stub_world 7) =
      Some (run_all stub_library (stub_world 7))"
    and "\<exists>fig canvas x ax r.
      requests stub_library (stub_world 7) = record_of fig canvas x ax r"
    by (simp_all add: ok)
  moreover from notebook_is_straight_line [of stub_library "bare_world 7"]
  have "\<exists>fig canvas x ax r.
      stopped (ImportError ''matplotlib.backends.backend_agg'')
        (requests stub_library (bare_world 7)) (record_of fig canvas x ax r)"
    by (simp add: bad)
  moreover have "length (requests stub_library (bare_world 7)) = 5"
    by (simp add: bare_requests)
  ultimately show ?thesis using ok bad by blast
qed

subsection \<open>The sample\<close>

text \<open>
  Claim C6. In a run that completes, the sample \<open>x\<close> is what the library answers to
  \<open>np.random.randn(10000)\<close> in cell 4, the only call of \<open>randn\<close> in the run; the
  next two requests are \<open>fig.add_subplot(111)\<close>, which does not receive \<open>x\<close>, and
  \<open>ax.hist(x, 100)\<close>, the only call of \<open>hist\<close>, whose first argument is that same
  value \<open>x\<close>.
\<close>

theorem sample_passed_unchanged_to_hist:
  fixes lib :: "('e, 'v, 'w) library"
  assumes "outcome lib w = Inr ()"
  shows "\<exists>pre x fig ax r post.
     requests lib w =
       pre @ [(4, CallFn ''np.random.randn'' [IntLit 10000], Inr x),
              (5, CallMethod fig ''add_subplot'' [IntLit 111], Inr ax),
              (5, CallMethod ax ''hist'' [Ref x, IntLit 100], r)] @ post \<and>
     fst (lib (CallFn ''np.random.randn'' [IntLit 10000]) (replay lib w (events_of pre))) = Inr x \<and>
     filter (calls_function ''np.random.randn'') (events_of (requests lib w)) =
       [CallFn ''np.random.randn'' [IntLit 10000]] \<and>
     filter (calls_method ''hist'') (events_of (requests lib w)) =
       [CallMethod ax ''hist'' [Ref x, IntLit 100]]"
proof -
  from run_all_success [OF assms]
  obtain fig canvas x ax r where req: "requests lib w = record_of fig canvas x ax r"
    by blast
  define pre where "pre = take 8 (requests lib w)"
  define post where "post = drop 11 (requests lib w)"
  have split: "requests lib w =
       pre @ [(4, CallFn ''np.random.randn'' [IntLit 10000], Inr x),
              (5, CallMethod fig ''add_subplot'' [IntLit 111], Inr ax),
              (5, CallMethod ax ''hist'' [Ref x, IntLit 100], Inr (r 6))] @ post"
    by (simp add: req record_of_def pre_def post_def)
  have "truthful lib w (requests lib w)"
    using run_all_record [of lib w] by simp
  then have drawn: "fst (lib (CallFn ''np.random.randn'' [IntLit 10000])
      (replay lib w (events_of pre))) = Inr x"
    unfolding split by simp
  have once: "filter (calls_function ''np.random.randn'') (events_of (requests lib w)) =
       [CallFn ''np.random.randn'' [IntLit 10000]]"
    by (simp add: req record_of_def events_of_def)
  have hist: "filter (calls_method ''hist'') (events_of (requests lib w)) =
       [CallMethod ax ''hist'' [Ref x, IntLit 100]]"
    by (simp add: req record_of_def events_of_def)
  from split drawn once hist show ?thesis by blast
qed

text \<open>On the stand-in library.\<close>

theorem sample_passed_unchanged_to_hist_witness:
  "outcome stub_library (stub_world 7) = Inr () \<and>
   (\<exists>pre x fig ax r post.
     requests stub_library (stub_world 7) =
       pre @ [(4, CallFn ''np.random.randn'' [IntLit 10000], Inr x),
              (5, CallMethod fig ''add_subplot'' [IntLit 111], Inr ax),
              (5, CallMethod ax ''hist'' [Ref x, IntLit 100], r)] @ post \<and>
     fst (stub_library (CallFn ''np.random.randn'' [IntLit 10000])
           (replay stub_library (stub_world 7) (events_of pre))) = Inr x \<and>
     filter (calls_function ''np.random.randn'') (events_of (requests stub_library (stub_world 7))) =
       [CallFn ''np.random.randn'' [IntLit 10000]] \<and>
     filter (calls_method ''hist'') (events_of (requests stub_library (stub_world 7))) =
       [CallMethod ax ''hist'' [Ref x, IntLit 100]])"
proof -
  have h: "outcome stub_library (stub_world 7) = Inr ()" by (rule stub_run_succeeds)
  from h sample_passed_unchanged_to_hist [OF h] show ?thesis by (rule conjI)
qed

subsection \<open>The Axes\<close>



end
